theory Spec2Isabelle
  imports Main
begin

section \<open>Python values shared by the formatters\<close>

text \<open>
  Strings are Python 2 byte strings, modelled as \<open>char list\<close>. The four characters
  that the RC escaping rules single out get names of their own.
\<close>

abbreviation DQ :: char where "DQ \<equiv> CHR 0x22"
abbreviation BS :: char where "BS \<equiv> CHR 0x5C"
abbreviation LF :: char where "LF \<equiv> CHR 0x0A"
abbreviation CR :: char where "CR \<equiv> CHR 0x0D"

text \<open>The exceptions that the modelled code can raise.\<close>

datatype py_error = KeyError | IndexError | ValueError | AttributeError

text \<open>\<open>s.replace(old, new)\<close> for a one-character \<open>old\<close>, the only form the source uses.\<close>

definition str_replace :: "char \<Rightarrow> string \<Rightarrow> string \<Rightarrow> string" where
  "str_replace old new s = concat (map (\<lambda>c. if c = old then new else [c]) s)"

text \<open>The conversion \<open>%-Ns\<close>: left-justified in a field of at least \<open>n\<close> columns, never cut.\<close>

definition ljust :: "nat \<Rightarrow> string \<Rightarrow> string" where
  "ljust n s = s @ replicate (n - length s) CHR '' ''"

text \<open>The character class \<open>[a-z]\<close> and \<open>str.upper()\<close> on ASCII.\<close>

definition is_lower :: "char \<Rightarrow> bool" where
  "is_lower c = (97 \<le> (of_char c :: nat) \<and> (of_char c :: nat) \<le> 122)"

definition upper_char :: "char \<Rightarrow> char" where
  "upper_char c = (if is_lower c then char_of ((of_char c :: nat) - 32) else c)"

definition str_upper :: "string \<Rightarrow> string" where
  "str_upper s = map upper_char s"

text \<open>
  \<open>s.find(c)\<close>: the index of the first occurrence, \<open>-1\<close> when there is none; and the
  slices \<open>s[0:j]\<close> and \<open>s[i:]\<close>, where a negative bound counts from the end and every
  bound is clamped to the string.
\<close>

fun str_find :: "char \<Rightarrow> string \<Rightarrow> int" where
  "str_find c [] = -1"
| "str_find c (x # xs) =
     (if x = c then 0 else (let r = str_find c xs in if r < 0 then -1 else r + 1))"

definition py_bound :: "string \<Rightarrow> int \<Rightarrow> nat" where
  "py_bound s i = nat (if i < 0 then max 0 (int (length s) + i) else min i (int (length s)))"

definition slice_to :: "string \<Rightarrow> int \<Rightarrow> string" where
  "slice_to s j = take (py_bound s j) s"

definition slice_from :: "string \<Rightarrow> int \<Rightarrow> string" where
  "slice_from s i = drop (py_bound s i) s"

text \<open>
  \<open>int(s, 16)\<close> on a string of hexadecimal digits. The strings the source passes are
  slices of table values; anything that is not a plain non-empty digit string is
  reported as \<open>ValueError\<close>.
\<close>

definition hex_digit :: "char \<Rightarrow> int option" where
  "hex_digit c =
     (let n = (of_char c :: nat) in
      if 48 \<le> n \<and> n \<le> 57 then Some (int (n - 48))
      else if 97 \<le> n \<and> n \<le> 102 then Some (int (n - 87))
      else if 65 \<le> n \<and> n \<le> 70 then Some (int (n - 55))
      else None)"

fun int16_from :: "int \<Rightarrow> string \<Rightarrow> py_error + int" where
  "int16_from acc [] = Inr acc"
| "int16_from acc (c # cs) =
     (case hex_digit c of
        None \<Rightarrow> Inl ValueError
      | Some d \<Rightarrow> int16_from (16 * acc + d) cs)"

definition int16 :: "string \<Rightarrow> py_error + int" where
  "int16 s = (if s = [] then Inl ValueError else int16_from 0 s)"

text \<open>\<open>str(n)\<close> and \<open>%d\<close>: the decimal rendering of an integer.\<close>

fun str_nat :: "nat \<Rightarrow> string" where
  "str_nat n =
     (if n < 10 then [char_of (48 + n)]
      else str_nat (n div 10) @ [char_of (48 + n mod 10)])"

declare str_nat.simps [simp del]

definition str_int :: "int \<Rightarrow> string" where
  "str_int i = (if i < 0 then CHR ''-'' # str_nat (nat (- i)) else str_nat (nat i))"

text \<open>The reading of a decimal rendering, used to state that \<open>str_int\<close> is one.\<close>

definition dec_value :: "string \<Rightarrow> nat" where
  "dec_value s = foldl (\<lambda>acc c. 10 * acc + ((of_char c :: nat) - 48)) 0 s"

section \<open>The locale tables of format/rc.py\<close>

text \<open>
  \<open>_LANGUAGE_CHARSET_PAIR\<close> and \<open>_LANGUAGE_DIRECTIVE_PAIR\<close>, entry by entry in the
  order of the source. No key occurs twice, so the first-match lookup \<open>map_of\<close> is the
  dictionary lookup.
\<close>

definition LANGUAGE_CHARSET_PAIR :: "(string \<times> string) list" where
  "LANGUAGE_CHARSET_PAIR =
  [(''neutral'', ''000004b0''),
   (''userdefault'', ''040004b0''),
   (''ar'', ''040104e8''),
   (''fi'', ''040b04e4''),
   (''ko'', ''041203b5''),
   (''es'', ''040a04e4''),
   (''bg'', ''040204e3''),
   (''fil'', ''046404e4''),
   (''fr'', ''040c04e4''),
   (''lv'', ''042604e9''),
   (''sv'', ''041d04e4''),
   (''ca'', ''040304e4''),
   (''de'', ''040704e4''),
   (''lt'', ''042704e9''),
   (''tl'', ''0c0004b0''),
   (''zh-CN'', ''080403a8''),
   (''zh-TW'', ''040403b6''),
   (''zh-HK'', ''0c0403b6''),
   (''el'', ''040804e5''),
   (''no'', ''041404e4''),
   (''th'', ''041e036a''),
   (''he'', ''040d04e7''),
   (''iw'', ''040d04e7''),
   (''pl'', ''041504e2''),
   (''tr'', ''041f04e6''),
   (''hr'', ''041a04e4''),
   (''hi'', ''043904b0''),
   (''pt-PT'', ''081604e4''),
   (''pt-BR'', ''041604e4''),
   (''uk'', ''042204e3''),
   (''cs'', ''040504e2''),
   (''hu'', ''040e04e2''),
   (''ro'', ''041804e2''),
   (''ur'', ''042004b0''),
   (''da'', ''040604e4''),
   (''is'', ''040f04e4''),
   (''ru'', ''041904e3''),
   (''vi'', ''042a04ea''),
   (''nl'', ''041304e4''),
   (''id'', ''042104e4''),
   (''sr'', ''081a04e2''),
   (''en-GB'', ''0809040e''),
   (''it'', ''041004e4''),
   (''sk'', ''041b04e2''),
   (''et'', ''042504e9''),
   (''ja'', ''041103a4''),
   (''sl'', ''042404e2''),
   (''en'', ''040904b0''),
   (''es-419'', ''080a04e4''),
   (''bn'', ''044504b0''),
   (''fa'', ''042904e8''),
   (''gu'', ''044704b0''),
   (''kn'', ''044b04b0''),
   (''ms'', ''043e04e4''),
   (''ml'', ''044c04b0''),
   (''mr'', ''044e04b0''),
   (''or'', ''044804b0''),
   (''ta'', ''044904b0''),
   (''te'', ''044a04b0''),
   (''am'', ''045e04b0''),
   (''sw'', ''044104e4''),
   (''af'', ''043604e4''),
   (''eu'', ''042d04e4''),
   (''fr-CA'', ''0c0c04e4''),
   (''gl'', ''045604e4''),
   (''zu'', ''043504b0''),
   (''fake-bidi'', ''040d04e7'')]"

definition LANGUAGE_DIRECTIVE_PAIR :: "(string \<times> string) list" where
  "LANGUAGE_DIRECTIVE_PAIR =
  [(''neutral'', ''LANG_NEUTRAL, SUBLANG_NEUTRAL''),
   (''userdefault'', ''LANG_NEUTRAL, SUBLANG_DEFAULT''),
   (''ar'', ''LANG_ARABIC, SUBLANG_DEFAULT''),
   (''fi'', ''LANG_FINNISH, SUBLANG_DEFAULT''),
   (''ko'', ''LANG_KOREAN, SUBLANG_KOREAN''),
   (''es'', ''LANG_SPANISH, SUBLANG_SPANISH_MODERN''),
   (''bg'', ''LANG_BULGARIAN, SUBLANG_DEFAULT''),
   (''fil'', ''100, SUBLANG_DEFAULT''),
   (''fr'', ''LANG_FRENCH, SUBLANG_FRENCH''),
   (''lv'', ''LANG_LATVIAN, SUBLANG_DEFAULT''),
   (''sv'', ''LANG_SWEDISH, SUBLANG_SWEDISH''),
   (''ca'', ''LANG_CATALAN, SUBLANG_DEFAULT''),
   (''de'', ''LANG_GERMAN, SUBLANG_GERMAN''),
   (''lt'', ''LANG_LITHUANIAN, SUBLANG_LITHUANIAN''),
   (''tl'', ''LANG_NEUTRAL, SUBLANG_DEFAULT''),
   (''zh-CN'', ''LANG_CHINESE, SUBLANG_CHINESE_SIMPLIFIED''),
   (''zh-TW'', ''LANG_CHINESE, SUBLANG_CHINESE_TRADITIONAL''),
   (''zh-HK'', ''LANG_CHINESE, SUBLANG_CHINESE_HONGKONG''),
   (''el'', ''LANG_GREEK, SUBLANG_DEFAULT''),
   (''no'', ''LANG_NORWEGIAN, SUBLANG_DEFAULT''),
   (''th'', ''LANG_THAI, SUBLANG_DEFAULT''),
   (''he'', ''LANG_HEBREW, SUBLANG_DEFAULT''),
   (''iw'', ''LANG_HEBREW, SUBLANG_DEFAULT''),
   (''pl'', ''LANG_POLISH, SUBLANG_DEFAULT''),
   (''tr'', ''LANG_TURKISH, SUBLANG_DEFAULT''),
   (''hr'', ''LANG_CROATIAN, SUBLANG_DEFAULT''),
   (''hi'', ''LANG_HINDI, SUBLANG_DEFAULT''),
   (''pt-PT'', ''LANG_PORTUGUESE, SUBLANG_PORTUGUESE''),
   (''pt-BR'', ''LANG_PORTUGUESE, SUBLANG_DEFAULT''),
   (''uk'', ''LANG_UKRAINIAN, SUBLANG_DEFAULT''),
   (''cs'', ''LANG_CZECH, SUBLANG_DEFAULT''),
   (''hu'', ''LANG_HUNGARIAN, SUBLANG_DEFAULT''),
   (''ro'', ''LANG_ROMANIAN, SUBLANG_DEFAULT''),
   (''ur'', ''LANG_URDU, SUBLANG_DEFAULT''),
   (''da'', ''LANG_DANISH, SUBLANG_DEFAULT''),
   (''is'', ''LANG_ICELANDIC, SUBLANG_DEFAULT''),
   (''ru'', ''LANG_RUSSIAN, SUBLANG_DEFAULT''),
   (''vi'', ''LANG_VIETNAMESE, SUBLANG_DEFAULT''),
   (''nl'', ''LANG_DUTCH, SUBLANG_DEFAULT''),
   (''id'', ''LANG_INDONESIAN, SUBLANG_DEFAULT''),
   (''sr'', ''LANG_SERBIAN, SUBLANG_SERBIAN_CYRILLIC''),
   (''en-GB'', ''LANG_ENGLISH, SUBLANG_ENGLISH_UK''),
   (''it'', ''LANG_ITALIAN, SUBLANG_DEFAULT''),
   (''sk'', ''LANG_SLOVAK, SUBLANG_DEFAULT''),
   (''et'', ''LANG_ESTONIAN, SUBLANG_DEFAULT''),
   (''ja'', ''LANG_JAPANESE, SUBLANG_DEFAULT''),
   (''sl'', ''LANG_SLOVENIAN, SUBLANG_DEFAULT''),
   (''en'', ''LANG_ENGLISH, SUBLANG_ENGLISH_US''),
   (''es-419'', ''LANG_SPANISH, SUBLANG_SPANISH_MEXICAN''),
   (''bn'', ''LANG_BENGALI, SUBLANG_DEFAULT''),
   (''fa'', ''LANG_PERSIAN, SUBLANG_DEFAULT''),
   (''gu'', ''LANG_GUJARATI, SUBLANG_DEFAULT''),
   (''kn'', ''LANG_KANNADA, SUBLANG_DEFAULT''),
   (''ms'', ''LANG_MALAY, SUBLANG_DEFAULT''),
   (''ml'', ''LANG_MALAYALAM, SUBLANG_DEFAULT''),
   (''mr'', ''LANG_MARATHI, SUBLANG_DEFAULT''),
   (''or'', ''LANG_ORIYA, SUBLANG_DEFAULT''),
   (''ta'', ''LANG_TAMIL, SUBLANG_DEFAULT''),
   (''te'', ''LANG_TELUGU, SUBLANG_DEFAULT''),
   (''am'', ''LANG_AMHARIC, SUBLANG_DEFAULT''),
   (''sw'', ''LANG_SWAHILI, SUBLANG_DEFAULT''),
   (''af'', ''LANG_AFRIKAANS, SUBLANG_DEFAULT''),
   (''eu'', ''LANG_BASQUE, SUBLANG_DEFAULT''),
   (''fr-CA'', ''LANG_FRENCH, SUBLANG_FRENCH_CANADIAN''),
   (''gl'', ''LANG_GALICIAN, SUBLANG_DEFAULT''),
   (''zu'', ''LANG_ZULU, SUBLANG_DEFAULT''),
   (''fake-bidi'', ''LANG_HEBREW, SUBLANG_DEFAULT'')]"

text \<open>
  The four lookups. Each returns its value together with the lines it prints; a miss
  prints one warning line and returns the fallback value.
\<close>

definition GetLangCharsetPair :: "string \<Rightarrow> string \<times> string list" where
  "GetLangCharsetPair language =
     (case map_of LANGUAGE_CHARSET_PAIR language of
        Some v \<Rightarrow> (v, [])
      | None \<Rightarrow>
          ([], [''Warning:GetLangCharsetPair() found undefined language '' @ language]))"

definition GetLangDirectivePair :: "string \<Rightarrow> string \<times> string list" where
  "GetLangDirectivePair language =
     (case map_of LANGUAGE_DIRECTIVE_PAIR language of
        Some v \<Rightarrow> (v, [])
      | None \<Rightarrow>
          (''unknown language: see tools/grit/format/rc.py'',
           [''Warning:GetLangDirectivePair() found undefined language '' @ language]))"

definition GetLangIdHex :: "string \<Rightarrow> string \<times> string list" where
  "GetLangIdHex language =
     (case map_of LANGUAGE_CHARSET_PAIR language of
        Some langcharset \<Rightarrow> (''0x'' @ take 4 langcharset, [])
      | None \<Rightarrow> ([], [''Warning:GetLangIdHex() found undefined language '' @ language]))"

definition GetCharsetIdDecimal :: "string \<Rightarrow> py_error + string \<times> string list" where
  "GetCharsetIdDecimal language =
     (case map_of LANGUAGE_CHARSET_PAIR language of
        Some langcharset \<Rightarrow>
          (case int16 (drop 4 langcharset) of
             Inl e \<Rightarrow> Inl e
           | Inr charset_decimal \<Rightarrow> Inr (str_int charset_decimal, []))
      | None \<Rightarrow>
          Inr ([], [''Warning:GetCharsetIdDecimal() found undefined language '' @ language]))"

text \<open>
  \<open>GetUnifiedLangCode\<close>. \<open>re.match\<close> anchors the pattern
  \<open>([a-z]{1,2})_([a-z]{1,2})\<close> at the start of the string only: one or two lower-case
  letters, an underscore, and at least one lower-case letter.
\<close>

fun lang_re_match :: "string \<Rightarrow> bool" where
  "lang_re_match (a # b # c # rest) =
     (is_lower a \<and>
      ((b = CHR ''_'' \<and> is_lower c) \<or>
       (is_lower b \<and> c = CHR ''_'' \<and> (case rest of [] \<Rightarrow> False | d # _ \<Rightarrow> is_lower d))))"
| "lang_re_match _ = False"

definition GetUnifiedLangCode :: "string \<Rightarrow> string" where
  "GetUnifiedLangCode language =
     (if lang_re_match language then
        (let underscore = str_find CHR ''_'' language in
         slice_to language underscore @ ''-'' @ str_upper (slice_from language (underscore + 1)))
      else language)"

text \<open>
  The positional value of a string of hexadecimal digits, most significant digit first:
  the reading against which the result of \<open>int16\<close> is stated.
\<close>

definition hex_digit_value :: "char \<Rightarrow> int" where
  "hex_digit_value c = (case hex_digit c of Some d \<Rightarrow> d | None \<Rightarrow> 0)"

fun hex_value :: "string \<Rightarrow> int" where
  "hex_value [] = 0"
| "hex_value (c # cs) = hex_digit_value c * 16 ^ length cs + hex_value cs"

definition is_hex :: "string \<Rightarrow> bool" where
  "is_hex s = list_all (\<lambda>c. hex_digit c \<noteq> None) s"

section \<open>The substitution engine\<close>

text \<open>
  Modelled from the spec: \<open>util.Substituter\<close>, the class of grit/util.py behind
  \<open>substituter.AddSubstitutions\<close> and \<open>substituter.Substitute\<close>; grit/util.py is not
  among the sources. The spec gives a mapping from placeholder name to replacement
  text, and a literal, non-recursive replacement of the bracketed names \<open>[NAME]\<close>:
  replaced text is not scanned again.
\<close>

type_synonym substituter = "string \<rightharpoonup> string"

definition AddSubstitutions :: "substituter \<Rightarrow> (string \<times> string) list \<Rightarrow> substituter" where
  "AddSubstitutions substituter subs = fold (\<lambda>(k, v) m. m(k \<mapsto> v)) subs substituter"

fun Substitute :: "substituter \<Rightarrow> string \<Rightarrow> string" where
  "Substitute m [] = []"
| "Substitute m (c # cs) =
     (if c = CHR ''['' then
        (let name = takeWhile (\<lambda>x. x \<noteq> CHR '']'') cs in
         if length name < length cs then
           (case m name of
              Some v \<Rightarrow> v @ Substitute m (drop (Suc (length name)) cs)
            | None \<Rightarrow> c # Substitute m cs)
         else c # Substitute m cs)
      else c # Substitute m cs)"

text \<open>
  \<open>RcSubstitutions\<close>: the three placeholders, looked up at the unified language code.
  The result carries the lines printed by the three lookups, in call order.
\<close>

definition RcSubstitutions :: "substituter \<Rightarrow> string \<Rightarrow> py_error + substituter \<times> string list" where
  "RcSubstitutions substituter lang =
     (let unified_lang_code = GetUnifiedLangCode lang;
          (charset_pair, printed1) = GetLangCharsetPair unified_lang_code;
          (lang_id, printed2) = GetLangIdHex unified_lang_code
      in case GetCharsetIdDecimal unified_lang_code of
           Inl e \<Rightarrow> Inl e
         | Inr (charset_id, printed3) \<Rightarrow>
             Inr (AddSubstitutions substituter
                    [(''GRITVERLANGCHARSETHEX'', charset_pair),
                     (''GRITVERLANGID'', lang_id),
                     (''GRITVERCHARSETID'', charset_id)],
                  printed1 @ printed2 @ printed3))"

section \<open>The message and string-table formatters\<close>

text \<open>
  Modelled from the spec: \<open>util.LINEBREAKS\<close>, a compiled pattern of grit/util.py (not
  among the sources); the spec names what it matches: the sequences CRLF, LF and CR.
  \<open>LINEBREAKS_sub repl s\<close> is \<open>util.LINEBREAKS.sub(template, s)\<close> with \<open>repl\<close> the
  expansion of the template: every match, found from left to right, a CRLF counting
  as one, is replaced by \<open>repl\<close>.
\<close>

fun LINEBREAKS_sub :: "string \<Rightarrow> string \<Rightarrow> string" where
  "LINEBREAKS_sub repl [] = []"
| "LINEBREAKS_sub repl (c # cs) =
     (if c = CR then
        (case cs of
           [] \<Rightarrow> repl
         | d # ds \<Rightarrow>
             if d = LF then repl @ LINEBREAKS_sub repl ds
             else repl @ LINEBREAKS_sub repl cs)
      else if c = LF then repl @ LINEBREAKS_sub repl cs
      else c # LINEBREAKS_sub repl cs)"

text \<open>
  What \<open>Message.Format\<close> reads of a message node: the white space kept around the
  text, the translation for a language, the textual ids, and the \<open>substituter\<close>
  attribute of the root (\<open>None\<close> when the root has none).
\<close>

record message_node =
  ws_at_start :: string
  ws_at_end :: string
  Translate :: "string \<Rightarrow> string"
  msg_textual_ids :: "string list"
  msg_root_substituter :: "substituter option"

text \<open>
  The text between the quotes: quotes doubled, then line breaks replaced (the
  template \<open>r'\\n'\<close> expands to a backslash and the letter n), then the substituter of
  the root, if there is one, applied to the result.
\<close>

definition escape_message :: "string \<Rightarrow> string" where
  "escape_message message = LINEBREAKS_sub [BS, CHR ''n''] (str_replace DQ [DQ, DQ] message)"

definition Message_Format :: "message_node \<Rightarrow> string \<Rightarrow> string \<Rightarrow> py_error + string" where
  "Message_Format item lang output_dir =
     (let message = ws_at_start item @ Translate item lang @ ws_at_end item;
          message = str_replace DQ [DQ, DQ] message;
          message = LINEBREAKS_sub [BS, CHR ''n''] message;
          message = (case msg_root_substituter item of
                       None \<Rightarrow> message
                     | Some substituter \<Rightarrow> Substitute substituter message)
      in case msg_textual_ids item of
           [] \<Rightarrow> Inl IndexError
         | name_attr # _ \<Rightarrow>
             Inr (''  '' @ ljust 15 name_attr @ '' '' @ [DQ] @ message @ [DQ, LF]))"

definition StringTable_Format :: "'item \<Rightarrow> string \<Rightarrow> string \<Rightarrow> string" where
  "StringTable_Format item lang output_dir = ''STRINGTABLE'' @ [LF] @ ''BEGIN'' @ [LF]"

definition StringTable_FormatEnd :: "'item \<Rightarrow> string \<Rightarrow> string \<Rightarrow> string" where
  "StringTable_FormatEnd item lang output_dir = ''END'' @ [LF, LF]"

text \<open>
  Modelled from the spec: the tree walk of the output driver (\<open>build.RcBuilder\<close>, not
  among the sources) on a string table whose children are messages: the text of
  \<open>Format\<close> of the grouping node, then of each child in declaration order, then of
  \<open>FormatEnd\<close>.
\<close>

fun format_messages :: "message_node list \<Rightarrow> string \<Rightarrow> string \<Rightarrow> py_error + string" where
  "format_messages [] lang output_dir = Inr []"
| "format_messages (m # ms) lang output_dir =
     (case Message_Format m lang output_dir of
        Inl e \<Rightarrow> Inl e
      | Inr t \<Rightarrow>
          (case format_messages ms lang output_dir of
             Inl e \<Rightarrow> Inl e
           | Inr ts \<Rightarrow> Inr (t @ ts)))"

definition walk_stringtable ::
  "'item \<Rightarrow> message_node list \<Rightarrow> string \<Rightarrow> string \<Rightarrow> py_error + string" where
  "walk_stringtable item messages lang output_dir =
     (case format_messages messages lang output_dir of
        Inl e \<Rightarrow> Inl e
      | Inr body \<Rightarrow>
          Inr (StringTable_Format item lang output_dir @ body
               @ StringTable_FormatEnd item lang output_dir))"

text \<open>
  The reading of claim C1 in the spec's words, as one pass over the text: at each
  position a CRLF, a CR or an LF becomes backslash-n, a quote becomes two quotes, and
  any other character is kept. And the recogniser of a text in which quotes occur
  only in adjacent pairs.
\<close>

fun escape_spec :: "string \<Rightarrow> string" where
  "escape_spec [] = []"
| "escape_spec (c # cs) =
     (if c = CR then
        (case cs of
           [] \<Rightarrow> [BS, CHR ''n'']
         | d # ds \<Rightarrow>
             if d = LF then [BS, CHR ''n''] @ escape_spec ds
             else [BS, CHR ''n''] @ escape_spec cs)
      else if c = LF then [BS, CHR ''n''] @ escape_spec cs
      else if c = DQ then [DQ, DQ] @ escape_spec cs
      else c # escape_spec cs)"

fun quotes_doubled :: "string \<Rightarrow> bool" where
  "quotes_doubled [] = True"
| "quotes_doubled [c] = (c \<noteq> DQ)"
| "quotes_doubled (c # d # cs) =
     (if c = DQ then d = DQ \<and> quotes_doubled cs else quotes_doubled (d # cs))"

section \<open>The preamble formatter\<close>

text \<open>
  What \<open>TopLevel.Format\<close> reads of an output node of the root: three attributes and
  the output file name.
\<close>

record output_node =
  out_type :: string
  out_lang :: string
  out_language_section :: string
  GetOutputFilename :: string

text \<open>
  The functions of the platform and of grit/util.py that the formatters call and that
  are not among the sources, taken as parameters: \<open>os.path.abspath\<close>,
  \<open>util.MakeRelativePath\<close> and \<open>util.GetCurrentYear\<close>.
\<close>

record platform =
  abspath :: "string \<Rightarrow> string"
  MakeRelativePath :: "string \<Rightarrow> string \<Rightarrow> string"
  GetCurrentYear :: int

text \<open>
  The loop over the outputs of the root. Its state is the pair of local variables
  \<open>resource_header\<close> and \<open>language_directive\<close>, with the lines printed so far.
\<close>

fun scan_outputs ::
  "platform \<Rightarrow> string \<Rightarrow> string \<Rightarrow> output_node list \<Rightarrow> string \<times> string \<times> string list
     \<Rightarrow> string \<times> string \<times> string list" where
  "scan_outputs env lang output_dir [] st = st"
| "scan_outputs env lang output_dir (output # outputs) (resource_header, language_directive, printed) =
     (let resource_header =
            (if out_type output = ''rc_header''
             then MakeRelativePath env output_dir (abspath env (GetOutputFilename output))
             else resource_header)
      in if out_lang output \<noteq> lang then
           scan_outputs env lang output_dir outputs (resource_header, language_directive, printed)
         else if out_language_section output = [] then
           scan_outputs env lang output_dir outputs (resource_header, [], printed)
         else if out_language_section output = ''neutral'' then
           scan_outputs env lang output_dir outputs
             (resource_header, ''LANGUAGE LANG_NEUTRAL, SUBLANG_NEUTRAL'', printed)
         else if out_language_section output = ''lang'' then
           (let (directive, warning) = GetLangDirectivePair lang
            in scan_outputs env lang output_dir outputs
                 (resource_header, ''LANGUAGE '' @ directive, printed @ warning))
         else
           scan_outputs env lang output_dir outputs (resource_header, language_directive, printed))"

definition preamble :: "int \<Rightarrow> string \<Rightarrow> string \<Rightarrow> string" where
  "preamble year resource_header language_directive =
     ''// Copyright (c) Google Inc. '' @ str_int year @ [LF]
     @ ''// All rights reserved.'' @ [LF]
     @ ''// This file is automatically generated by GRIT.  Do not edit.'' @ [LF]
     @ [LF]
     @ ''#include '' @ [DQ] @ resource_header @ [DQ, LF]
     @ ''#include <winresrc.h>'' @ [LF]
     @ ''#ifdef IDC_STATIC'' @ [LF]
     @ ''#undef IDC_STATIC'' @ [LF]
     @ ''#endif'' @ [LF]
     @ ''#define IDC_STATIC (-1)'' @ [LF]
     @ [LF]
     @ language_directive @ [LF]
     @ [LF]
     @ [LF]"

text \<open>
  \<open>TopLevel.Format\<close>, given the outputs of the root of the item
  (\<open>item.GetRoot().GetOutputFiles()\<close>): the text and the lines printed.
\<close>

definition TopLevel_Format ::
  "platform \<Rightarrow> output_node list \<Rightarrow> string \<Rightarrow> string \<Rightarrow> string \<times> string list" where
  "TopLevel_Format env outputs lang output_dir =
     (let (resource_header, language_directive, printed) =
            scan_outputs env lang output_dir outputs (''resource.h'', [], []);
          resource_header = str_replace BS [BS, BS] resource_header
      in (preamble (GetCurrentYear env) resource_header language_directive, printed))"

section \<open>The include node\<close>

text \<open>
  \<open>os.path.basename\<close> and \<open>os.path.join\<close> of two parts, as \<open>posixpath\<close> defines them.
\<close>

definition os_path_basename :: "string \<Rightarrow> string" where
  "os_path_basename p = rev (takeWhile (\<lambda>c. c \<noteq> CHR ''/'') (rev p))"

definition os_path_join :: "string \<Rightarrow> string \<Rightarrow> string" where
  "os_path_join a b =
     (if b \<noteq> [] \<and> hd b = CHR ''/'' then b
      else if a = [] \<or> last a = CHR ''/'' then a @ b
      else a @ ''/'' @ b)"

text \<open>
  An \<open>IncludeNode\<close>: the attributes the modelled methods read, what the base class
  answers for \<open>GetTextualIds()\<close>, \<open>ToRealPath(GetInputPath())\<close> and
  \<open>SatisfiesOutputCondition()\<close>, and the two cache fields, \<open>None\<close> after \<open>__init__\<close>.
\<close>

record include_node =
  attr_name :: string
  attr_type :: string
  attr_filenameonly :: string
  attr_flattenhtml :: string
  attr_allowexternalscript :: string
  attr_relativepath :: string
  inc_textual_ids :: "string list"
  real_path :: string
  SatisfiesOutputCondition :: bool
  flattened_data :: "string option"
  last_flat_filename :: "string option"

text \<open>
  The world outside the node: the collaborators \<open>html_inline.InlineToString\<close> (by file
  name and \<open>allow_external_script\<close>) and \<open>util.ReadFile\<close> in binary mode (by file name),
  the id table \<open>rc_header.Item.tids_\<close>, and two logs: the calls of the inliner and the
  files written, each in order.
\<close>

record world =
  InlineToString :: "string \<Rightarrow> bool \<Rightarrow> string"
  ReadFile :: "string \<Rightarrow> string"
  tids :: "string \<rightharpoonup> int"
  inline_calls :: "(string \<times> bool) list"
  files_written :: "(string \<times> string) list"

text \<open>
  \<open>_GetFlattenedData\<close>. The test \<open>not self._flattened_data\<close> holds for \<open>None\<close> and for
  the empty string.
\<close>

definition GetFlattenedData ::
  "include_node \<Rightarrow> world \<Rightarrow> bool \<Rightarrow> string \<times> include_node \<times> world" where
  "GetFlattenedData self w allow_external_script =
     (if flattened_data self = None \<or> flattened_data self = Some [] then
        (let filename = real_path self;
             data = InlineToString w filename allow_external_script
         in (data,
             self\<lparr>flattened_data := Some data\<rparr>,
             w\<lparr>inline_calls := inline_calls w @ [(filename, allow_external_script)]\<rparr>))
      else (the (flattened_data self), self, w))"

definition GetDataPackPair ::
  "include_node \<Rightarrow> world \<Rightarrow> string \<Rightarrow> string
     \<Rightarrow> py_error + (int \<times> string) \<times> include_node \<times> world" where
  "GetDataPackPair self w lang encoding =
     (case inc_textual_ids self of
        [] \<Rightarrow> Inl IndexError
      | textual_id # _ \<Rightarrow>
          (case tids w textual_id of
             None \<Rightarrow> Inl KeyError
           | Some resource_id \<Rightarrow>
               if attr_flattenhtml self = ''true'' then
                 (let allow_external_script = (attr_allowexternalscript self = ''true'');
                      (data, self', w') = GetFlattenedData self w allow_external_script
                  in Inr ((resource_id, data), self', w'))
               else
                 (let filename = real_path self;
                      data = ReadFile w filename
                  in Inr ((resource_id, data), self, w))))"

text \<open>
  \<open>Process\<close>. The result is \<open>None\<close> where the method returns without a value.
\<close>

definition Process ::
  "include_node \<Rightarrow> world \<Rightarrow> string \<Rightarrow> string option \<times> include_node \<times> world" where
  "Process self w output_dir =
     (let filename = real_path self;
          flat_filename =
            os_path_join output_dir (attr_name self @ ''_'' @ os_path_basename filename)
      in if last_flat_filename self = Some flat_filename then (None, self, w)
         else
           (let (data, self', w') = GetFlattenedData self w False
            in (Some (os_path_basename flat_filename),
                self'\<lparr>last_flat_filename := Some flat_filename\<rparr>,
                w'\<lparr>files_written := files_written w' @ [(flat_filename, data)]\<rparr>)))"

definition FileForLanguage :: "include_node \<Rightarrow> string \<Rightarrow> string \<Rightarrow> string" where
  "FileForLanguage self lang output_dir = real_path self"

section \<open>The RC include formatter\<close>

text \<open>
  The fields of an \<open>RcInclude\<close> formatter, and the formatters that
  \<open>IncludeNode.ItemFormatter\<close> chooses between; the last stands for the call of the
  base class.
\<close>

record rc_include =
  rc_type :: string
  filenameWithoutPath :: bool
  relative_path :: bool
  flatten_html :: bool

datatype item_formatter =
    RcHeaderItem
  | RcInclude rc_include
  | SourceInclude
  | SourceFileInclude
  | BaseItemFormatter string

definition ItemFormatter :: "include_node \<Rightarrow> string \<Rightarrow> item_formatter" where
  "ItemFormatter self t =
     (if t = ''rc_header'' then RcHeaderItem
      else if t \<in> set [''rc_all'', ''rc_translateable'', ''rc_nontranslateable'']
              \<and> SatisfiesOutputCondition self then
        RcInclude \<lparr>rc_type = str_upper (attr_type self),
                  filenameWithoutPath = (attr_filenameonly self = ''true''),
                  relative_path = (attr_relativepath self = ''true''),
                  flatten_html = (attr_flattenhtml self = ''true'')\<rparr>
      else if t = ''resource_map_source'' then SourceInclude
      else if t = ''resource_file_map_source'' then SourceFileInclude
      else BaseItemFormatter t)"

text \<open>
  \<open>RcInclude.Format\<close> on an include node, with the node and the world after it. The
  closing test \<open>isinstance(item, structure.StructureNode)\<close> is false on an include
  node.

  Modelled from the spec: \<open>item.Flatten\<close>, which no class among the sources defines.
  It is the flatten operation of the include/flatten cache, which \<open>IncludeNode\<close>
  implements under the name \<open>Process\<close>. Where that returns no name, the call
  \<open>filename.replace\<close> raises \<open>AttributeError\<close>.
\<close>

definition RcInclude_Format ::
  "platform \<Rightarrow> rc_include \<Rightarrow> include_node \<Rightarrow> world \<Rightarrow> string \<Rightarrow> string
     \<Rightarrow> (py_error + string) \<times> include_node \<times> world" where
  "RcInclude_Format env self item w lang output_dir =
     (let filename = abspath env (FileForLanguage item lang output_dir);
          (filename, item', w') =
            (if flatten_html self then Process item w output_dir
             else if filenameWithoutPath self then (Some (os_path_basename filename), item, w)
             else if relative_path self
               then (Some (MakeRelativePath env output_dir filename), item, w)
             else (Some filename, item, w))
      in case filename of
           None \<Rightarrow> (Inl AttributeError, item', w')
         | Some filename \<Rightarrow>
             (let filename = str_replace BS [BS, BS] filename
              in (Inr (ljust 18 (attr_name item') @ '' '' @ ljust 18 (rc_type self) @ '' ''
                       @ [DQ] @ filename @ [DQ, LF]),
                  item', w')))"

text \<open>
  The path that claim C10 names for a node, chosen from its attributes in the order
  flattenhtml, filenameonly, relativepath; the flatten path is what \<open>Process\<close>
  returns, \<open>None\<close> where it returns no name.
\<close>

definition chosen_path ::
  "platform \<Rightarrow> include_node \<Rightarrow> world \<Rightarrow> string \<Rightarrow> string option" where
  "chosen_path env item w output_dir =
     (if attr_flattenhtml item = ''true'' then fst (Process item w output_dir)
      else if attr_filenameonly item = ''true''
        then Some (os_path_basename (abspath env (real_path item)))
      else if attr_relativepath item = ''true''
        then Some (MakeRelativePath env output_dir (abspath env (real_path item)))
      else Some (abspath env (real_path item)))"

section \<open>Values for evaluation and readings of the claims\<close>

text \<open>
  A message node with one textual id, no white space around its text, and the same
  text in every language.
\<close>

definition plain_message :: "string \<Rightarrow> string \<Rightarrow> substituter option \<Rightarrow> message_node" where
  "plain_message name text sub =
     \<lparr>ws_at_start = [], ws_at_end = [], Translate = (\<lambda>lang. text),
      msg_textual_ids = [name], msg_root_substituter = sub\<rparr>"

text \<open>What one character of a message becomes when it is not the CR of a CRLF.\<close>

definition token :: "char \<Rightarrow> string" where
  "token c = (if c = CR \<or> c = LF then [BS, CHR ''n''] else if c = DQ then [DQ, DQ] else [c])"

text \<open>
  A platform for evaluation, for absolute normalised paths below the base directory:
  there \<open>abspath\<close> returns its argument, and \<open>MakeRelativePath\<close> drops the base
  directory and the separator after it.
\<close>

definition example_platform :: platform where
  "example_platform =
     \<lparr>abspath = (\<lambda>path. path),
      MakeRelativePath = (\<lambda>base_path path. drop (Suc (length base_path)) path),
      GetCurrentYear = 2012\<rparr>"

text \<open>
  The header path of claim C3 before backslashes are doubled: the last output of type
  \<open>rc_header\<close> in the list, made relative to the output directory, or \<open>resource.h\<close>.
\<close>

definition header_entry :: "platform \<Rightarrow> string \<Rightarrow> output_node list \<Rightarrow> string" where
  "header_entry env output_dir outputs =
     (case filter (\<lambda>output. out_type output = ''rc_header'') outputs of
        [] \<Rightarrow> ''resource.h''
      | h # hs \<Rightarrow> MakeRelativePath env output_dir (abspath env (GetOutputFilename (last (h # hs)))))"

text \<open>
  The include node of the flattening test of rc_unittest.py, fresh from \<open>__init__\<close>,
  and a world with empty logs whose inliner returns the given bytes for every file.
\<close>

definition html_include :: include_node where
  "html_include =
     \<lparr>attr_name = ''HTML_FILE1'', attr_type = ''BINDATA'', attr_filenameonly = ''false'',
      attr_flattenhtml = ''true'', attr_allowexternalscript = ''false'',
      attr_relativepath = ''false'', inc_textual_ids = [''HTML_FILE1''],
      real_path = ''/grit/testdata/include_test.html'', SatisfiesOutputCondition = True,
      flattened_data = None, last_flat_filename = None\<rparr>"

definition example_world :: "string \<Rightarrow> world" where
  "example_world data =
     \<lparr>InlineToString = (\<lambda>filename allow_external_script. data),
      ReadFile = (\<lambda>filename. ''raw''),
      tids = [''HTML_FILE1'' \<mapsto> 101],
      inline_calls = [], files_written = []\<rparr>"

text \<open>
  The first include node of the include test of rc_unittest.py, resolved below
  \<open>/temp\<close>.
\<close>

definition text_one :: include_node where
  "text_one =
     \<lparr>attr_name = ''TEXT_ONE'', attr_type = ''TXT'', attr_filenameonly = ''false'',
      attr_flattenhtml = ''false'', attr_allowexternalscript = ''false'',
      attr_relativepath = ''false'', inc_textual_ids = [''TEXT_ONE''],
      real_path = ''/temp/bingo.txt'', SatisfiesOutputCondition = True,
      flattened_data = None, last_flat_filename = None\<rparr>"

section \<open>Properties of the locale tables\<close>

lemma int16_from_hex:
  "is_hex s \<Longrightarrow> int16_from acc s = Inr (acc * 16 ^ length s + hex_value s)"
proof (induction s arbitrary: acc)
  case Nil
  then show ?case by simp
next
  case (Cons c cs)
  then obtain d where d: "hex_digit c = Some d" and cs: "is_hex cs"
    by (auto simp: is_hex_def)
  show ?case
    using Cons.IH [OF cs, of "16 * acc + d"] d
    by (simp add: hex_digit_value_def algebra_simps)
qed

lemma int16_hex: "is_hex s \<Longrightarrow> s \<noteq> [] \<Longrightarrow> int16 s = Inr (hex_value s)"
  by (simp add: int16_def int16_from_hex)

lemma hex_value_nonneg: "0 \<le> hex_value s"
  by (induction s) (auto simp: hex_digit_value_def hex_digit_def Let_def split: option.splits)

lemma is_hex_drop: "is_hex v \<Longrightarrow> is_hex (drop n v)"
  unfolding is_hex_def list_all_iff by (auto dest: in_set_dropD)

text \<open>Every value of the charset table is a string of eight hexadecimal digits.\<close>

lemma charset_table_shape:
  "list_all (\<lambda>(k, v). length v = 8 \<and> is_hex v) LANGUAGE_CHARSET_PAIR"
  by (simp add: LANGUAGE_CHARSET_PAIR_def is_hex_def hex_digit_def)

lemma charset_value_shape:
  assumes "map_of LANGUAGE_CHARSET_PAIR language = Some v"
  shows "length v = 8 \<and> is_hex v"
proof -
  have "(language, v) \<in> set LANGUAGE_CHARSET_PAIR"
    using assms by (rule map_of_SomeD)
  with charset_table_shape show ?thesis
    by (auto simp: list_all_iff)
qed

lemma charset_id_of_entry:
  assumes "map_of LANGUAGE_CHARSET_PAIR language = Some v"
  shows "GetCharsetIdDecimal language = Inr (str_int (hex_value (drop 4 v)), [])"
proof -
  from charset_value_shape [OF assms] have len: "length v = 8" and hex: "is_hex v"
    by simp_all
  have "int16 (drop 4 v) = Inr (hex_value (drop 4 v))"
    using len by (intro int16_hex is_hex_drop hex) auto
  then show ?thesis
    using assms by (simp add: GetCharsetIdDecimal_def)
qed

lemma charset_id_total: "\<exists>r. GetCharsetIdDecimal language = Inr r"
proof (cases "map_of LANGUAGE_CHARSET_PAIR language")
  case None
  then show ?thesis by (simp add: GetCharsetIdDecimal_def)
next
  case (Some v)
  then show ?thesis by (simp add: charset_id_of_entry)
qed

text \<open>The two tables have the same keys, in the same order.\<close>

lemma same_keys: "map fst LANGUAGE_DIRECTIVE_PAIR = map fst LANGUAGE_CHARSET_PAIR"
  by (simp add: LANGUAGE_CHARSET_PAIR_def LANGUAGE_DIRECTIVE_PAIR_def)

text \<open>\<open>str_nat\<close> is a decimal rendering: reading it back gives the number.\<close>

lemma dec_value_snoc: "dec_value (s @ [c]) = 10 * dec_value s + (of_char c - 48)"
  by (simp add: dec_value_def)

lemma dec_value_str_nat: "dec_value (str_nat n) = n"
proof (induction n rule: str_nat.induct)
  case (1 n)
  show ?case
  proof (cases "n < 10")
    case True
    then show ?thesis
      by (subst str_nat.simps) (simp add: dec_value_def)
  next
    case False
    have "dec_value (str_nat n) =
        10 * dec_value (str_nat (n div 10)) + (of_char (char_of (48 + n mod 10) :: char) - 48)"
      using False by (subst str_nat.simps) (simp add: dec_value_snoc)
    also have "(of_char (char_of (48 + n mod 10) :: char) :: nat) = 48 + n mod 10"
      by simp
    finally show ?thesis using 1 False by simp
  qed
qed

text \<open>
  Claim C4, as amended. The lookups read nothing but the two constant tables, so each
  is a function of the language code alone. None of them raises: the only operation
  that could, the base-16 parse in \<open>GetCharsetIdDecimal\<close>, succeeds on every table
  value. For a code that is in neither table, the charset-pair, lang-id and charset-id
  lookups return the empty string and the directive lookup returns the string
  \<open>unknown language: see tools/grit/format/rc.py\<close>; each prints one warning line that
  names the code.
\<close>

theorem locale_lookups_total_and_miss:
  "(\<exists>r. GetCharsetIdDecimal language = Inr r)
   \<and> (map_of LANGUAGE_CHARSET_PAIR language = None \<longrightarrow>
        GetLangCharsetPair language =
          ([], [''Warning:GetLangCharsetPair() found undefined language '' @ language])
      \<and> GetLangIdHex language =
          ([], [''Warning:GetLangIdHex() found undefined language '' @ language])
      \<and> GetCharsetIdDecimal language =
          Inr ([], [''Warning:GetCharsetIdDecimal() found undefined language '' @ language]))
   \<and> (map_of LANGUAGE_DIRECTIVE_PAIR language = None \<longrightarrow>
        GetLangDirectivePair language =
          (''unknown language: see tools/grit/format/rc.py'',
           [''Warning:GetLangDirectivePair() found undefined language '' @ language]))"
proof (intro conjI impI)
  show "\<exists>r. GetCharsetIdDecimal language = Inr r"
    by (rule charset_id_total)
next
  assume "map_of LANGUAGE_CHARSET_PAIR language = None"
  then show "GetLangCharsetPair language =
      ([], [''Warning:GetLangCharsetPair() found undefined language '' @ language])"
    by (simp add: GetLangCharsetPair_def)
next
  assume "map_of LANGUAGE_CHARSET_PAIR language = None"
  then show "GetLangIdHex language =
      ([], [''Warning:GetLangIdHex() found undefined language '' @ language])"
    by (simp add: GetLangIdHex_def)
next
  assume "map_of LANGUAGE_CHARSET_PAIR language = None"
  then show "GetCharsetIdDecimal language =
      Inr ([], [''Warning:GetCharsetIdDecimal() found undefined language '' @ language])"
    by (simp add: GetCharsetIdDecimal_def)
next
  assume "map_of LANGUAGE_DIRECTIVE_PAIR language = None"
  then show "GetLangDirectivePair language =
      (''unknown language: see tools/grit/format/rc.py'',
       [''Warning:GetLangDirectivePair() found undefined language '' @ language])"
    by (simp add: GetLangDirectivePair_def)
qed

text \<open>The code \<open>xx\<close> is in neither table; the four lookups at it.\<close>

theorem locale_lookups_miss_witness:
  "map_of LANGUAGE_CHARSET_PAIR ''xx'' = None
   \<and> map_of LANGUAGE_DIRECTIVE_PAIR ''xx'' = None
   \<and> GetLangCharsetPair ''xx'' =
        ([], [''Warning:GetLangCharsetPair() found undefined language xx''])
   \<and> GetLangIdHex ''xx'' = ([], [''Warning:GetLangIdHex() found undefined language xx''])
   \<and> GetCharsetIdDecimal ''xx'' =
        Inr ([], [''Warning:GetCharsetIdDecimal() found undefined language xx''])
   \<and> GetLangDirectivePair ''xx'' =
        (''unknown language: see tools/grit/format/rc.py'',
         [''Warning:GetLangDirectivePair() found undefined language xx''])"
proof -
  have m: "map_of LANGUAGE_CHARSET_PAIR ''xx'' = None"
    by (simp add: LANGUAGE_CHARSET_PAIR_def)
  have d: "map_of LANGUAGE_DIRECTIVE_PAIR ''xx'' = None"
    by (simp add: LANGUAGE_DIRECTIVE_PAIR_def)
  show ?thesis
    using locale_lookups_total_and_miss [of "''xx''"] m d by simp
qed

text \<open>
  Claim C4 as stated names the string \<open>unknown language\<close> as the fallback of the
  directive lookup; the code returns a longer string.
\<close>

theorem directive_fallback_is_longer:
  "fst (GetLangDirectivePair ''xx'') = ''unknown language: see tools/grit/format/rc.py''
   \<and> fst (GetLangDirectivePair ''xx'') \<noteq> ''unknown language''"
  by (simp add: GetLangDirectivePair_def LANGUAGE_DIRECTIVE_PAIR_def)

text \<open>
  Claim C7, as amended. For a language code in the charset-pair table, with value
  \<open>v\<close>: \<open>v\<close> is eight hexadecimal digits; the lang-id lookup is the two characters
  \<open>0x\<close> followed by the first four digits of \<open>v\<close>; and the charset-id lookup is the
  decimal rendering of the base-16 value of the last four digits of \<open>v\<close>. Neither
  lookup prints anything.
\<close>

theorem lang_id_and_charset_id_of_entry:
  assumes "map_of LANGUAGE_CHARSET_PAIR language = Some v"
  shows "length v = 8 \<and> is_hex v
    \<and> GetLangCharsetPair language = (v, [])
    \<and> GetLangIdHex language = (''0x'' @ take 4 v, [])
    \<and> GetCharsetIdDecimal language = Inr (str_int (hex_value (drop 4 v)), [])
    \<and> int (dec_value (str_int (hex_value (drop 4 v)))) = hex_value (drop 4 v)"
proof -
  have "int (dec_value (str_int (hex_value (drop 4 v)))) = hex_value (drop 4 v)"
    using hex_value_nonneg [of "drop 4 v"] by (simp add: str_int_def dec_value_str_nat)
  then show ?thesis
    using assms charset_value_shape [OF assms] charset_id_of_entry [OF assms]
    by (simp add: GetLangCharsetPair_def GetLangIdHex_def)
qed

text \<open>English: the pair \<open>040904b0\<close> gives the lang id \<open>0x0409\<close> and the code page 1200.\<close>

theorem lang_id_and_charset_id_witness:
  "map_of LANGUAGE_CHARSET_PAIR ''en'' = Some ''040904b0''
   \<and> GetLangIdHex ''en'' = (''0x0409'', [])
   \<and> GetCharsetIdDecimal ''en'' = Inr (''1200'', [])"
proof -
  have e: "map_of LANGUAGE_CHARSET_PAIR ''en'' = Some ''040904b0''"
    by (simp add: LANGUAGE_CHARSET_PAIR_def)
  have v: "str_int (hex_value (drop 4 ''040904b0'')) = ''1200''"
    by (simp add: str_int_def hex_digit_value_def hex_digit_def str_nat.simps char_of_eq_iff)
  show ?thesis
    using lang_id_and_charset_id_of_entry [OF e] e v by simp
qed

text \<open>
  Claim C7 as stated makes the lang-id lookup equal to the first four digits of the
  pair; the code puts \<open>0x\<close> in front of them.
\<close>

theorem lang_id_hex_has_prefix:
  "fst (GetLangIdHex ''en'') = ''0x0409''
   \<and> take 4 (fst (GetLangCharsetPair ''en'')) = ''0409''
   \<and> fst (GetLangIdHex ''en'') \<noteq> take 4 (fst (GetLangCharsetPair ''en''))"
  by (simp add: GetLangIdHex_def GetLangCharsetPair_def LANGUAGE_CHARSET_PAIR_def)

section \<open>Properties of the unified language code and the substitutions\<close>

lemma underscore_not_lower: "is_lower c \<Longrightarrow> c \<noteq> CHR ''_''"
  by (auto simp: is_lower_def)

lemma str_find_first:
  "c \<notin> set a \<Longrightarrow> str_find c (a @ c # b) = int (length a)"
  by (induction a) (auto simp: Let_def)

lemma slices_at_mark:
  "slice_to (a @ c # b) (int (length a)) = a"
  "slice_from (a @ c # b) (int (length a) + 1) = b"
  by (simp_all add: slice_to_def slice_from_def py_bound_def nat_add_distrib)

lemma lang_re_match_iff:
  "lang_re_match language \<longleftrightarrow>
     (\<exists>a c rest. language = a @ CHR ''_'' # c # rest \<and> list_all is_lower a
        \<and> (length a = 1 \<or> length a = 2) \<and> is_lower c)"
proof
  assume m: "lang_re_match language"
  then obtain x y z rest where l: "language = x # y # z # rest"
    by (cases language rule: lang_re_match.cases) auto
  show "\<exists>a c rest. language = a @ CHR ''_'' # c # rest \<and> list_all is_lower a
        \<and> (length a = 1 \<or> length a = 2) \<and> is_lower c"
  proof (cases "y = CHR ''_'' \<and> is_lower z")
    case True
    with m l have "language = [x] @ CHR ''_'' # z # rest \<and> list_all is_lower [x]
        \<and> (length [x] = 1 \<or> length [x] = 2) \<and> is_lower z"
      by simp
    then show ?thesis by blast
  next
    case False
    with m l obtain d ds where "rest = d # ds" "is_lower x" "is_lower y" "z = CHR ''_''" "is_lower d"
      by (cases rest) auto
    then have "language = [x, y] @ CHR ''_'' # d # ds \<and> list_all is_lower [x, y]
        \<and> (length [x, y] = 1 \<or> length [x, y] = 2) \<and> is_lower d"
      using l by simp
    then show ?thesis by blast
  qed
next
  assume "\<exists>a c rest. language = a @ CHR ''_'' # c # rest \<and> list_all is_lower a
        \<and> (length a = 1 \<or> length a = 2) \<and> is_lower c"
  then obtain a c rest where l: "language = a @ CHR ''_'' # c # rest"
    and a: "list_all is_lower a" "length a = 1 \<or> length a = 2" and c: "is_lower c"
    by blast
  from a(2) show "lang_re_match language"
  proof
    assume "length a = 1"
    then obtain x where "a = [x]" by (cases a) auto
    with l a c show ?thesis by simp
  next
    assume "length a = 2"
    then obtain x y where "a = [x, y]"
      by (cases a; cases "tl a") auto
    with l a c show ?thesis by simp
  qed
qed

lemma unified_of_match:
  assumes "list_all is_lower a" "length a = 1 \<or> length a = 2" "is_lower c"
  shows "GetUnifiedLangCode (a @ CHR ''_'' # c # rest) = a @ CHR ''-'' # str_upper (c # rest)"
proof -
  have m: "lang_re_match (a @ CHR ''_'' # c # rest)"
    using assms unfolding lang_re_match_iff by blast
  have "CHR ''_'' \<notin> set a"
    using assms(1) underscore_not_lower by (auto simp: list_all_iff)
  then have f: "str_find CHR ''_'' (a @ CHR ''_'' # c # rest) = int (length a)"
    by (rule str_find_first)
  show ?thesis
    unfolding GetUnifiedLangCode_def using m by (simp add: f slices_at_mark Let_def del: lang_re_match.simps)
qed

lemma AddSubstitutions_three:
  "AddSubstitutions s [(k1, v1), (k2, v2), (k3, v3)] = s(k1 \<mapsto> v1, k2 \<mapsto> v2, k3 \<mapsto> v3)"
  by (simp add: AddSubstitutions_def)

lemma RcSubstitutions_eq:
  "\<exists>charset_id printed3.
      GetCharsetIdDecimal (GetUnifiedLangCode lang) = Inr (charset_id, printed3)
    \<and> RcSubstitutions substituter lang =
        Inr (substituter
               (''GRITVERLANGCHARSETHEX'' \<mapsto> fst (GetLangCharsetPair (GetUnifiedLangCode lang)),
                ''GRITVERLANGID'' \<mapsto> fst (GetLangIdHex (GetUnifiedLangCode lang)),
                ''GRITVERCHARSETID'' \<mapsto> charset_id),
             snd (GetLangCharsetPair (GetUnifiedLangCode lang))
             @ snd (GetLangIdHex (GetUnifiedLangCode lang)) @ printed3)"
proof -
  obtain r where "GetCharsetIdDecimal (GetUnifiedLangCode lang) = Inr r"
    using charset_id_total by blast
  then show ?thesis
    by (cases r) (simp add: RcSubstitutions_def AddSubstitutions_three split_beta Let_def)
qed


text \<open>
  Claim C5, as amended. \<open>GetUnifiedLangCode\<close> rewrites exactly the codes that begin
  with one or two lower-case letters, an underscore and a lower-case letter: the result
  is the letters before the underscore, a hyphen, and everything after the underscore
  in upper case. Every other code, among them the codes \<open>xx_YY\<close> whose region is
  already in upper case, is returned as it is. \<open>RcSubstitutions\<close> never raises, and sets
  the three placeholders to the results of the three lookups at the code that
  \<open>GetUnifiedLangCode\<close> returns.
\<close>

theorem unified_lang_code_and_substitutions:
  "(list_all is_lower a \<and> (length a = 1 \<or> length a = 2) \<and> is_lower c \<longrightarrow>
      GetUnifiedLangCode (a @ CHR ''_'' # c # rest) = a @ CHR ''-'' # str_upper (c # rest))
   \<and> (lang_re_match language \<longleftrightarrow>
        (\<exists>a c rest. language = a @ CHR ''_'' # c # rest \<and> list_all is_lower a
           \<and> (length a = 1 \<or> length a = 2) \<and> is_lower c))
   \<and> (\<not> lang_re_match language \<longrightarrow> GetUnifiedLangCode language = language)
   \<and> (\<exists>charset_id printed3.
        GetCharsetIdDecimal (GetUnifiedLangCode lang) = Inr (charset_id, printed3)
      \<and> RcSubstitutions substituter lang =
          Inr (substituter
                 (''GRITVERLANGCHARSETHEX'' \<mapsto> fst (GetLangCharsetPair (GetUnifiedLangCode lang)),
                  ''GRITVERLANGID'' \<mapsto> fst (GetLangIdHex (GetUnifiedLangCode lang)),
                  ''GRITVERCHARSETID'' \<mapsto> charset_id),
               snd (GetLangCharsetPair (GetUnifiedLangCode lang))
               @ snd (GetLangIdHex (GetUnifiedLangCode lang)) @ printed3))"
proof (intro conjI impI)
  assume "list_all is_lower a \<and> (length a = 1 \<or> length a = 2) \<and> is_lower c"
  then show "GetUnifiedLangCode (a @ CHR ''_'' # c # rest) = a @ CHR ''-'' # str_upper (c # rest)"
    by (simp add: unified_of_match)
next
  show "lang_re_match language \<longleftrightarrow>
        (\<exists>a c rest. language = a @ CHR ''_'' # c # rest \<and> list_all is_lower a
           \<and> (length a = 1 \<or> length a = 2) \<and> is_lower c)"
    by (rule lang_re_match_iff)
next
  assume "\<not> lang_re_match language"
  then show "GetUnifiedLangCode language = language"
    by (simp add: GetUnifiedLangCode_def)
next
  show "\<exists>charset_id printed3.
        GetCharsetIdDecimal (GetUnifiedLangCode lang) = Inr (charset_id, printed3)
      \<and> RcSubstitutions substituter lang =
          Inr (substituter
                 (''GRITVERLANGCHARSETHEX'' \<mapsto> fst (GetLangCharsetPair (GetUnifiedLangCode lang)),
                  ''GRITVERLANGID'' \<mapsto> fst (GetLangIdHex (GetUnifiedLangCode lang)),
                  ''GRITVERCHARSETID'' \<mapsto> charset_id),
               snd (GetLangCharsetPair (GetUnifiedLangCode lang))
               @ snd (GetLangIdHex (GetUnifiedLangCode lang)) @ printed3)"
    by (rule RcSubstitutions_eq)
qed

text \<open>
  The code \<open>pt_br\<close> is rewritten to \<open>pt-BR\<close>; the code \<open>en_GB\<close> does not match the
  pattern and is returned as it is.
\<close>

theorem unified_lang_code_witness:
  "list_all is_lower ''pt'' \<and> is_lower CHR ''b''
   \<and> GetUnifiedLangCode ''pt_br'' = ''pt-BR''
   \<and> \<not> lang_re_match ''en_GB''
   \<and> GetUnifiedLangCode ''en_GB'' = ''en_GB''"
proof -
  have l: "list_all is_lower ''pt'' \<and> (length ''pt'' = 1 \<or> length ''pt'' = 2) \<and> is_lower CHR ''b''"
    by (simp add: is_lower_def)
  have u: "str_upper ''br'' = ''BR''"
    by (simp add: str_upper_def upper_char_def is_lower_def char_of_eq_iff)
  have n: "\<not> lang_re_match ''en_GB''"
    by (simp add: is_lower_def)
  note t = unified_lang_code_and_substitutions
    [where a = "''pt''" and c = "CHR ''b''" and rest = "''r''" and language = "''en_GB''"]
  have 1: "GetUnifiedLangCode ''pt_br'' = ''pt-BR''"
    using t [THEN conjunct1, rule_format, OF l] u by simp
  have 2: "GetUnifiedLangCode ''en_GB'' = ''en_GB''"
    using t [THEN conjunct2, THEN conjunct2, THEN conjunct1, rule_format, OF n] .
  show ?thesis
    using l n 1 2 by simp
qed

text \<open>
  Claim C5 as stated covers every code made of a language part, an underscore and a
  region part. The code \<open>en_GB\<close> has that form and is not rewritten, so the lookup
  that follows misses, although \<open>en-GB\<close> is in the table.
\<close>

theorem unified_lang_code_keeps_upper_region:
  "GetUnifiedLangCode ''en_GB'' = ''en_GB''
   \<and> GetUnifiedLangCode ''en_GB'' \<noteq> ''en-GB''
   \<and> GetLangCharsetPair (GetUnifiedLangCode ''en_GB'') =
        ([], [''Warning:GetLangCharsetPair() found undefined language en_GB''])
   \<and> GetLangCharsetPair ''en-GB'' = (''0809040e'', [])"
  by (simp add: GetUnifiedLangCode_def is_lower_def GetLangCharsetPair_def LANGUAGE_CHARSET_PAIR_def)

section \<open>Properties of the message and string-table formatters\<close>

lemma str_replace_Cons:
  "str_replace old new (c # cs) = (if c = old then new else [c]) @ str_replace old new cs"
  by (simp add: str_replace_def)

lemma str_replace_Nil: "str_replace old new [] = []"
  by (simp add: str_replace_def)

lemma escape_message_Nil: "escape_message [] = []"
  by (simp add: escape_message_def str_replace_Nil)

lemma linebreak_induct [case_names Nil CRLF Other]:
  assumes "P []"
    and "\<And>ds. P ds \<Longrightarrow> P (CR # LF # ds)"
    and "\<And>c cs. \<not> (c = CR \<and> take 1 cs = [LF]) \<Longrightarrow> P cs \<Longrightarrow> P (c # cs)"
  shows "P s"
proof (induction "length s" arbitrary: s rule: less_induct)
  case less
  show ?case
  proof (cases s)
    case Nil
    with assms(1) show ?thesis by simp
  next
    case (Cons c cs)
    show ?thesis
    proof (cases "c = CR \<and> take 1 cs = [LF]")
      case True
      then obtain ds where "cs = LF # ds"
        by (cases cs) auto
      with True Cons less assms(2) [of ds] show ?thesis by simp
    next
      case False
      with Cons less assms(3) [of c cs] show ?thesis by simp
    qed
  qed
qed

lemma escape_spec_CRLF: "escape_spec (CR # LF # ds) = [BS, CHR ''n''] @ escape_spec ds"
  by simp

lemma escape_spec_Other:
  "\<not> (c = CR \<and> take 1 cs = [LF]) \<Longrightarrow> escape_spec (c # cs) = token c @ escape_spec cs"
  by (cases cs) (simp_all add: token_def del: escape_spec.simps add: escape_spec.simps(1) escape_spec.simps(2) [of c])

lemma escape_message_CRLF: "escape_message (CR # LF # ds) = [BS, CHR ''n''] @ escape_message ds"
  by (simp add: escape_message_def str_replace_Cons)

lemma escape_message_Other:
  "\<not> (c = CR \<and> take 1 cs = [LF]) \<Longrightarrow> escape_message (c # cs) = token c @ escape_message cs"
  by (cases cs) (simp_all add: token_def escape_message_def str_replace_Cons str_replace_Nil)

lemma escape_message_eq_spec: "escape_message s = escape_spec s"
proof (induction s rule: linebreak_induct)
  case Nil
  show ?case by (simp add: escape_message_Nil)
next
  case (CRLF ds)
  then show ?case
    by (simp only: escape_spec_CRLF escape_message_CRLF)
next
  case (Other c cs)
  then show ?case
    by (simp only: escape_spec_Other [OF Other(1)] escape_message_Other [OF Other(1)])
qed

lemma quotes_doubled_skip: "c \<noteq> DQ \<Longrightarrow> quotes_doubled (c # t) = quotes_doubled t"
  by (cases t) simp_all

lemma quotes_doubled_token: "quotes_doubled (token c @ t) = quotes_doubled t"
  by (simp add: token_def quotes_doubled_skip)

lemma quotes_doubled_escape_spec: "quotes_doubled (escape_spec s)"
proof (induction s rule: linebreak_induct)
  case Nil
  show ?case by simp
next
  case (CRLF ds)
  then show ?case
    by (simp only: escape_spec_CRLF) (simp add: quotes_doubled_skip)
next
  case (Other c cs)
  then show ?case
    by (simp only: escape_spec_Other [OF Other(1)] quotes_doubled_token)
qed

lemma count_list_append: "count_list (xs @ ys) x = count_list xs x + count_list ys x"
  by (induction xs) auto

lemma count_quotes_escape_spec: "count_list (escape_spec s) DQ = 2 * count_list s DQ"
proof (induction s rule: linebreak_induct)
  case Nil
  show ?case by simp
next
  case (CRLF ds)
  then show ?case
    by (simp only: escape_spec_CRLF) simp
next
  case (Other c cs)
  then show ?case
    by (simp only: escape_spec_Other [OF Other(1)] count_list_append) (simp add: token_def)
qed

lemma no_linebreak_escape_spec: "CR \<notin> set (escape_spec s) \<and> LF \<notin> set (escape_spec s)"
proof (induction s rule: linebreak_induct)
  case Nil
  show ?case by simp
next
  case (CRLF ds)
  then show ?case
    by (simp only: escape_spec_CRLF) simp
next
  case (Other c cs)
  then show ?case
    by (simp only: escape_spec_Other [OF Other(1)] set_append) (auto simp: token_def)
qed

lemma Message_Format_eq:
  "msg_textual_ids item = name # ids \<Longrightarrow>
   Message_Format item lang output_dir =
     Inr (''  '' @ ljust 15 name @ '' '' @ [DQ]
          @ (case msg_root_substituter item of
               None \<Rightarrow> escape_message (ws_at_start item @ Translate item lang @ ws_at_end item)
             | Some sub \<Rightarrow>
                 Substitute sub (escape_message (ws_at_start item @ Translate item lang @ ws_at_end item)))
          @ [DQ, LF])"
  by (simp add: Message_Format_def escape_message_def Let_def split: option.splits)

lemma Substitute_no_bracket: "CHR ''['' \<notin> set s \<Longrightarrow> Substitute m s = s"
  by (induction s) auto

text \<open>
  Claim C1, as amended. The escaping step of \<open>Message.Format\<close> doubles every quote
  and replaces every line break (CRLF, CR or LF) by backslash-n: its result is the
  one-pass escape of the text, holds no raw CR or LF, holds twice as many quotes as
  the text, and holds them in adjacent pairs only. For a node whose root has no
  substituter, that result is the text between the quotes of the output line. For a
  node whose root has a substituter, the text between the quotes is what the
  substituter makes of that result; replacement values are not escaped.
\<close>

theorem message_text_is_escaped:
  "escape_message message = escape_spec message
   \<and> quotes_doubled (escape_message message)
   \<and> count_list (escape_message message) DQ = 2 * count_list message DQ
   \<and> CR \<notin> set (escape_message message) \<and> LF \<notin> set (escape_message message)
   \<and> (msg_textual_ids item = name # ids \<and> msg_root_substituter item = None \<longrightarrow>
        Message_Format item lang output_dir =
          Inr (''  '' @ ljust 15 name @ '' '' @ [DQ]
               @ escape_message (ws_at_start item @ Translate item lang @ ws_at_end item)
               @ [DQ, LF]))
   \<and> (msg_textual_ids item = name # ids \<and> msg_root_substituter item = Some sub \<longrightarrow>
        Message_Format item lang output_dir =
          Inr (''  '' @ ljust 15 name @ '' '' @ [DQ]
               @ Substitute sub
                   (escape_message (ws_at_start item @ Translate item lang @ ws_at_end item))
               @ [DQ, LF]))"
  using quotes_doubled_escape_spec [of message] count_quotes_escape_spec [of message]
    no_linebreak_escape_spec [of message]
  by (simp add: escape_message_eq_spec Message_Format_eq)

text \<open>
  A message whose text holds a quote, a CRLF and a lone LF, under a root without
  substituter.
\<close>

theorem message_text_is_escaped_witness:
  "msg_textual_ids (plain_message ''BONGO'' (''a'' @ [DQ] @ ''b'' @ [CR, LF] @ ''c'' @ [LF]) None) = [''BONGO'']
   \<and> msg_root_substituter (plain_message ''BONGO'' (''a'' @ [DQ] @ ''b'' @ [CR, LF] @ ''c'' @ [LF]) None) = None
   \<and> Message_Format (plain_message ''BONGO'' (''a'' @ [DQ] @ ''b'' @ [CR, LF] @ ''c'' @ [LF]) None)
        ''en'' ''.'' =
      Inr (''  BONGO           '' @ [DQ] @ ''a'' @ [DQ, DQ] @ ''b'' @ [BS] @ ''nc'' @ [BS] @ ''n''
           @ [DQ, LF])"
proof -
  let ?m = "plain_message ''BONGO'' (''a'' @ [DQ] @ ''b'' @ [CR, LF] @ ''c'' @ [LF]) None"
  have i: "msg_textual_ids ?m = ''BONGO'' # [] \<and> msg_root_substituter ?m = None"
    by (simp add: plain_message_def)
  have t: "ws_at_start ?m @ Translate ?m ''en'' @ ws_at_end ?m = ''a'' @ [DQ] @ ''b'' @ [CR, LF] @ ''c'' @ [LF]"
    by (simp add: plain_message_def)
  have e: "escape_message (''a'' @ [DQ] @ ''b'' @ [CR, LF] @ ''c'' @ [LF])
      = ''a'' @ [DQ, DQ] @ ''b'' @ [BS] @ ''nc'' @ [BS] @ ''n''"
    by (simp add: escape_message_def str_replace_def)
  have p: "ljust 15 ''BONGO'' = ''BONGO          ''"
    by (simp add: ljust_def numeral_eq_Suc)
  note f = message_text_is_escaped
    [where item = ?m and name = "''BONGO''" and ids = "[]" and lang = "''en''" and output_dir = "''.''",
     THEN conjunct2, THEN conjunct2, THEN conjunct2, THEN conjunct2, THEN conjunct2,
     THEN conjunct1, rule_format, OF i]
  have r: "Message_Format ?m ''en'' ''.'' =
      Inr (''  '' @ ''BONGO          '' @ '' '' @ [DQ]
           @ (''a'' @ [DQ, DQ] @ ''b'' @ [BS] @ ''nc'' @ [BS] @ ''n'') @ [DQ, LF])"
    using f unfolding t e p .
  show ?thesis
    using i r by simp
qed

text \<open>
  Claim C1 as stated holds for every message node. Under a root whose substituter
  replaces \<open>[q]\<close> by a text holding a quote and a line break, both reach the output
  unescaped.
\<close>

theorem message_substitution_not_escaped:
  "Message_Format (plain_message ''IDS_X'' ''Say [q]'' (Some [''q'' \<mapsto> [DQ, CHR ''h'', CHR ''i'', DQ, LF]]))
     ''en'' ''.'' =
   Inr (''  IDS_X           '' @ [DQ] @ ''Say '' @ [DQ] @ ''hi'' @ [DQ, LF] @ [DQ, LF])
   \<and> \<not> quotes_doubled (''Say '' @ [DQ] @ ''hi'' @ [DQ, LF])
   \<and> LF \<in> set (''Say '' @ [DQ] @ ''hi'' @ [DQ, LF])"
  by (simp add: Message_Format_def plain_message_def str_replace_def ljust_def numeral_eq_Suc)

lemma escape_message_Go: "escape_message ''Go!'' = ''Go!''"
  by (simp add: escape_message_def str_replace_def)

lemma ljust_IDS_BTN_GO: "ljust 15 ''IDS_BTN_GO'' = ''IDS_BTN_GO     ''"
  by (simp add: ljust_def numeral_eq_Suc)

lemma Message_Format_Go:
  assumes "msg_textual_ids item = ''IDS_BTN_GO'' # ids"
    and "ws_at_start item @ Translate item lang @ ws_at_end item = ''Go!''"
  shows "Message_Format item lang output_dir = Inr (''  IDS_BTN_GO      '' @ [DQ] @ ''Go!'' @ [DQ, LF])"
proof -
  have "(case msg_root_substituter item of
           None \<Rightarrow> escape_message ''Go!''
         | Some sub \<Rightarrow> Substitute sub (escape_message ''Go!'')) = ''Go!''"
    by (simp add: escape_message_Go Substitute_no_bracket split: option.splits)
  then show ?thesis
    unfolding Message_Format_eq [OF assms(1)] assms(2) ljust_IDS_BTN_GO by simp
qed

text \<open>
  Claim C6, as amended. For every message node with a textual id, the formatter
  returns one text: two spaces, the first textual id followed by spaces up to 15
  columns (a longer id is not cut), a space, a quote, the escaped text after the
  substituter of the root, if there is one, has been applied to it, a quote, and a
  line feed. A message with id \<open>IDS_BTN_GO\<close> and text \<open>Go!\<close> gives the line of the
  claim, whatever the substituter, and the walk over a string table holding it gives
  that line between the texts of \<open>StringTable.Format\<close> and \<open>StringTable.FormatEnd\<close>.
\<close>

theorem message_line_shape:
  "(msg_textual_ids item = name # ids \<longrightarrow>
      Message_Format item lang output_dir =
        Inr (''  '' @ name @ replicate (15 - length name) CHR '' '' @ '' '' @ [DQ]
             @ (case msg_root_substituter item of
                  None \<Rightarrow> escape_message (ws_at_start item @ Translate item lang @ ws_at_end item)
                | Some sub \<Rightarrow>
                    Substitute sub
                      (escape_message (ws_at_start item @ Translate item lang @ ws_at_end item)))
             @ [DQ, LF]))
   \<and> (msg_textual_ids item = ''IDS_BTN_GO'' # ids
        \<and> ws_at_start item @ Translate item lang @ ws_at_end item = ''Go!'' \<longrightarrow>
      Message_Format item lang output_dir =
        Inr (''  IDS_BTN_GO      '' @ [DQ] @ ''Go!'' @ [DQ, LF])
      \<and> walk_stringtable table [item] lang output_dir =
        Inr (''STRINGTABLE'' @ [LF] @ ''BEGIN'' @ [LF]
             @ ''  IDS_BTN_GO      '' @ [DQ] @ ''Go!'' @ [DQ, LF]
             @ ''END'' @ [LF, LF]))
   \<and> StringTable_Format table lang output_dir = ''STRINGTABLE'' @ [LF] @ ''BEGIN'' @ [LF]
   \<and> StringTable_FormatEnd table lang output_dir = ''END'' @ [LF, LF]"
proof (intro conjI impI)
  assume "msg_textual_ids item = name # ids"
  then show "Message_Format item lang output_dir =
        Inr (''  '' @ name @ replicate (15 - length name) CHR '' '' @ '' '' @ [DQ]
             @ (case msg_root_substituter item of
                  None \<Rightarrow> escape_message (ws_at_start item @ Translate item lang @ ws_at_end item)
                | Some sub \<Rightarrow>
                    Substitute sub
                      (escape_message (ws_at_start item @ Translate item lang @ ws_at_end item)))
             @ [DQ, LF])"
    by (simp add: Message_Format_eq ljust_def)
next
  assume a: "msg_textual_ids item = ''IDS_BTN_GO'' # ids
        \<and> ws_at_start item @ Translate item lang @ ws_at_end item = ''Go!''"
  then show "Message_Format item lang output_dir =
        Inr (''  IDS_BTN_GO      '' @ [DQ] @ ''Go!'' @ [DQ, LF])"
    by (intro Message_Format_Go) simp_all
next
  assume a: "msg_textual_ids item = ''IDS_BTN_GO'' # ids
        \<and> ws_at_start item @ Translate item lang @ ws_at_end item = ''Go!''"
  then have "Message_Format item lang output_dir =
        Inr (''  IDS_BTN_GO      '' @ [DQ] @ ''Go!'' @ [DQ, LF])"
    by (intro Message_Format_Go) simp_all
  then show "walk_stringtable table [item] lang output_dir =
        Inr (''STRINGTABLE'' @ [LF] @ ''BEGIN'' @ [LF]
             @ ''  IDS_BTN_GO      '' @ [DQ] @ ''Go!'' @ [DQ, LF]
             @ ''END'' @ [LF, LF])"
    by (simp add: walk_stringtable_def StringTable_Format_def StringTable_FormatEnd_def)
next
  show "StringTable_Format table lang output_dir = ''STRINGTABLE'' @ [LF] @ ''BEGIN'' @ [LF]"
    by (simp add: StringTable_Format_def)
next
  show "StringTable_FormatEnd table lang output_dir = ''END'' @ [LF, LF]"
    by (simp add: StringTable_FormatEnd_def)
qed

text \<open>The message of scenario A, alone in a string table.\<close>

theorem message_line_shape_witness:
  "msg_textual_ids (plain_message ''IDS_BTN_GO'' ''Go!'' None) = [''IDS_BTN_GO'']
   \<and> Message_Format (plain_message ''IDS_BTN_GO'' ''Go!'' None) ''en'' ''.'' =
        Inr (''  IDS_BTN_GO      '' @ [DQ] @ ''Go!'' @ [DQ, LF])
   \<and> walk_stringtable () [plain_message ''IDS_BTN_GO'' ''Go!'' None] ''en'' ''.'' =
        Inr (''STRINGTABLE'' @ [LF] @ ''BEGIN'' @ [LF]
             @ ''  IDS_BTN_GO      '' @ [DQ] @ ''Go!'' @ [DQ, LF]
             @ ''END'' @ [LF, LF])"
proof -
  let ?m = "plain_message ''IDS_BTN_GO'' ''Go!'' None"
  have i: "msg_textual_ids ?m = ''IDS_BTN_GO'' # []
      \<and> ws_at_start ?m @ Translate ?m ''en'' @ ws_at_end ?m = ''Go!''"
    by (simp add: plain_message_def)
  note f = message_line_shape
    [where item = ?m and ids = "[]" and lang = "''en''" and output_dir = "''.''" and table = "()",
     THEN conjunct2, THEN conjunct1, rule_format, OF i]
  show ?thesis
    using i f by simp
qed

text \<open>
  Claim C6 as stated puts the escaped text between the quotes for every message
  node. Under a root whose substituter replaces \<open>[good]\<close> by \<open>excellent\<close>, the text
  between the quotes is not the escaped text of the message.
\<close>

theorem message_line_holds_substituted_text:
  "Message_Format (plain_message ''IDS_X'' ''[good]'' (Some [''good'' \<mapsto> ''excellent''])) ''en'' ''.'' =
     Inr (''  IDS_X           '' @ [DQ] @ ''excellent'' @ [DQ, LF])
   \<and> escape_message ''[good]'' = ''[good]''"
  by (simp add: Message_Format_def escape_message_def plain_message_def str_replace_def ljust_def
      numeral_eq_Suc)

section \<open>Properties of the preamble formatter\<close>

lemma scan_outputs_header:
  "fst (scan_outputs env lang output_dir outputs (resource_header, language_directive, printed)) =
     (case filter (\<lambda>output. out_type output = ''rc_header'') outputs of
        [] \<Rightarrow> resource_header
      | h # hs \<Rightarrow> MakeRelativePath env output_dir (abspath env (GetOutputFilename (last (h # hs)))))"
proof (induction outputs arbitrary: resource_header language_directive printed)
  case Nil
  show ?case by simp
next
  case (Cons out outputs)
  show ?case
    by (simp add: Cons.IH Let_def split_beta split: list.splits)
qed

lemma TopLevel_Format_header:
  "\<exists>language_directive printed.
     TopLevel_Format env outputs lang output_dir =
       (preamble (GetCurrentYear env)
          (str_replace BS [BS, BS] (header_entry env output_dir outputs)) language_directive,
        printed)"
proof -
  obtain rh ld pr where s: "scan_outputs env lang output_dir outputs (''resource.h'', [], []) = (rh, ld, pr)"
    by (cases "scan_outputs env lang output_dir outputs (''resource.h'', [], [])") auto
  have "rh = header_entry env output_dir outputs"
    using scan_outputs_header [of env lang output_dir outputs "''resource.h''" "[]" "[]"] s
    by (simp add: header_entry_def)
  then show ?thesis
    by (intro exI [of _ ld] exI [of _ pr]) (simp add: TopLevel_Format_def s)
qed

lemma header_entry_none:
  "\<forall>output \<in> set outputs. out_type output \<noteq> ''rc_header'' \<Longrightarrow>
   header_entry env output_dir outputs = ''resource.h''"
  by (simp add: header_entry_def filter_empty_conv [THEN iffD2])

lemma str_replace_resource_h: "str_replace BS [BS, BS] ''resource.h'' = ''resource.h''"
  by (simp add: str_replace_def)

text \<open>
  Claim C3, as amended. The header path of the preamble is found by scanning the
  outputs of the root for entries whose type is \<open>rc_header\<close>, whatever their language:
  the last such entry gives the path, its absolute file name made relative to the
  output directory; when there is no such entry the path is \<open>resource.h\<close>. In both
  cases every backslash of the path is doubled, and the path stands between quotes
  in the \<open>#include\<close> line of the preamble.
\<close>

theorem preamble_header_path:
  "(\<exists>language_directive printed.
      TopLevel_Format env outputs lang output_dir =
        (preamble (GetCurrentYear env)
           (str_replace BS [BS, BS] (header_entry env output_dir outputs)) language_directive,
         printed))
   \<and> header_entry env output_dir (map (\<lambda>output. output\<lparr>out_lang := other\<rparr>) outputs)
       = header_entry env output_dir outputs
   \<and> ((\<forall>output \<in> set outputs. out_type output \<noteq> ''rc_header'') \<longrightarrow>
        (\<exists>language_directive printed.
           TopLevel_Format env outputs lang output_dir =
             (preamble (GetCurrentYear env) ''resource.h'' language_directive, printed)))"
proof (intro conjI impI)
  show "\<exists>language_directive printed.
      TopLevel_Format env outputs lang output_dir =
        (preamble (GetCurrentYear env)
           (str_replace BS [BS, BS] (header_entry env output_dir outputs)) language_directive,
         printed)"
    by (rule TopLevel_Format_header)
next
  have "filter (\<lambda>output. out_type output = ''rc_header'') (map (\<lambda>output. output\<lparr>out_lang := other\<rparr>) outputs)
      = map (\<lambda>output. output\<lparr>out_lang := other\<rparr>) (filter (\<lambda>output. out_type output = ''rc_header'') outputs)"
    by (simp add: filter_map comp_def)
  then show "header_entry env output_dir (map (\<lambda>output. output\<lparr>out_lang := other\<rparr>) outputs)
       = header_entry env output_dir outputs"
    by (simp add: header_entry_def last_map split: list.splits)
next
  assume "\<forall>output \<in> set outputs. out_type output \<noteq> ''rc_header''"
  then have "header_entry env output_dir outputs = ''resource.h''"
    by (rule header_entry_none)
  then show "\<exists>language_directive printed.
           TopLevel_Format env outputs lang output_dir =
             (preamble (GetCurrentYear env) ''resource.h'' language_directive, printed)"
    using TopLevel_Format_header [of env outputs lang output_dir]
    by (simp add: str_replace_resource_h)
qed


text \<open>
  Scenario D: the only output is the RC file itself, so the include line names
  \<open>resource.h\<close>.
\<close>

theorem preamble_header_path_witness:
  "out_type \<lparr>out_type = ''rc_all'', out_lang = ''en'', out_language_section = ''neutral'',
             GetOutputFilename = ''/out/klonk_resources.rc''\<rparr> \<noteq> ''rc_header''
   \<and> TopLevel_Format example_platform
        [\<lparr>out_type = ''rc_all'', out_lang = ''en'', out_language_section = ''neutral'',
          GetOutputFilename = ''/out/klonk_resources.rc''\<rparr>] ''en'' ''/out'' =
       (preamble 2012 ''resource.h'' ''LANGUAGE LANG_NEUTRAL, SUBLANG_NEUTRAL'', [])"
proof -
  let ?outs = "[\<lparr>out_type = ''rc_all'', out_lang = ''en'', out_language_section = ''neutral'',
                 GetOutputFilename = ''/out/klonk_resources.rc''\<rparr>]"
  have h: "\<forall>output \<in> set ?outs. out_type output \<noteq> ''rc_header''"
    by simp
  have y: "GetCurrentYear example_platform = 2012"
    by (simp add: example_platform_def)
  from preamble_header_path
    [where env = example_platform and outputs = ?outs and lang = "''en''" and output_dir = "''/out''",
     THEN conjunct2, THEN conjunct2, THEN mp, OF h]
  obtain language_directive printed where
    f: "TopLevel_Format example_platform ?outs ''en'' ''/out'' =
          (preamble (GetCurrentYear example_platform) ''resource.h'' language_directive, printed)"
    by blast
  have d: "snd (scan_outputs example_platform ''en'' ''/out'' ?outs (''resource.h'', [], []))
      = (''LANGUAGE LANG_NEUTRAL, SUBLANG_NEUTRAL'', [])"
    by simp
  have "TopLevel_Format example_platform ?outs ''en'' ''/out'' =
      (preamble 2012 ''resource.h'' ''LANGUAGE LANG_NEUTRAL, SUBLANG_NEUTRAL'', [])"
    using f d y by (simp add: TopLevel_Format_def split_beta Let_def str_replace_resource_h)
  then show ?thesis by simp
qed

text \<open>
  Claim C3 as stated looks for a header entry that matches the language of the pass.
  Here the pass is English and the only header entry is French: no entry matches, yet
  the include line names that entry and not \<open>resource.h\<close>.
\<close>

theorem preamble_header_ignores_language:
  "fst (TopLevel_Format example_platform
          [\<lparr>out_type = ''rc_header'', out_lang = ''fr'', out_language_section = [],
            GetOutputFilename = ''/out/fr/resource.h''\<rparr>] ''en'' ''/out'') =
     preamble 2012 ''fr/resource.h'' []
   \<and> preamble 2012 ''fr/resource.h'' [] \<noteq> preamble 2012 ''resource.h'' []"
  by (simp add: TopLevel_Format_def example_platform_def str_replace_def preamble_def)

section \<open>Properties of the include node\<close>

lemma GetFlattenedData_frame:
  "GetFlattenedData self w allow = (data, self', w') \<Longrightarrow>
     real_path self' = real_path self \<and> attr_name self' = attr_name self
     \<and> last_flat_filename self' = last_flat_filename self
     \<and> files_written w' = files_written w \<and> InlineToString w' = InlineToString w"
  by (auto simp: GetFlattenedData_def Let_def split: if_splits)

lemma GetFlattenedData_cached:
  "flattened_data self = Some data \<Longrightarrow> data \<noteq> [] \<Longrightarrow>
     GetFlattenedData self w allow = (data, self, w)"
  by (simp add: GetFlattenedData_def)

lemma GetFlattenedData_empty:
  "flattened_data self = None \<or> flattened_data self = Some [] \<Longrightarrow>
     GetFlattenedData self w allow =
       (InlineToString w (real_path self) allow,
        self\<lparr>flattened_data := Some (InlineToString w (real_path self) allow)\<rparr>,
        w\<lparr>inline_calls := inline_calls w @ [(real_path self, allow)]\<rparr>)"
  by (simp add: GetFlattenedData_def Let_def)

text \<open>
  Claim C2. On a node that was not yet flattened to the destination, the first call
  of \<open>Process\<close> writes the file once and returns its base name; the second call with
  the same output directory writes nothing and changes nothing, and its result is
  \<open>None\<close>, not the file name that the first call returned.
\<close>

theorem process_second_call_returns_none:
  "last_flat_filename self \<noteq>
      Some (os_path_join output_dir (attr_name self @ ''_'' @ os_path_basename (real_path self)))
   \<longrightarrow>
   (\<exists>self1 w1.
      Process self w output_dir =
        (Some (os_path_basename
                (os_path_join output_dir (attr_name self @ ''_'' @ os_path_basename (real_path self)))),
         self1, w1)
    \<and> files_written w1 =
        files_written w @
          [(os_path_join output_dir (attr_name self @ ''_'' @ os_path_basename (real_path self)),
            fst (GetFlattenedData self w False))]
    \<and> Process self1 w1 output_dir = (None, self1, w1))"
proof
  let ?flat = "os_path_join output_dir (attr_name self @ ''_'' @ os_path_basename (real_path self))"
  assume n: "last_flat_filename self \<noteq> Some ?flat"
  obtain data self' w' where g: "GetFlattenedData self w False = (data, self', w')"
    by (cases "GetFlattenedData self w False") auto
  note fr = GetFlattenedData_frame [OF g]
  let ?self1 = "self'\<lparr>last_flat_filename := Some ?flat\<rparr>"
  let ?w1 = "w'\<lparr>files_written := files_written w' @ [(?flat, data)]\<rparr>"
  have 1: "Process self w output_dir = (Some (os_path_basename ?flat), ?self1, ?w1)"
    using n g by (simp add: Process_def Let_def)
  have 2: "files_written ?w1 = files_written w @ [(?flat, fst (GetFlattenedData self w False))]"
    using g fr by simp
  have 3: "Process ?self1 ?w1 output_dir = (None, ?self1, ?w1)"
    using fr by (simp add: Process_def Let_def)
  from 1 2 3 show "\<exists>self1 w1.
      Process self w output_dir = (Some (os_path_basename ?flat), self1, w1)
    \<and> files_written w1 = files_written w @ [(?flat, fst (GetFlattenedData self w False))]
    \<and> Process self1 w1 output_dir = (None, self1, w1)"
    by blast
qed

lemma html_include_flat:
  "os_path_join ''/tmp'' (attr_name html_include @ ''_'' @ os_path_basename (real_path html_include))
     = ''/tmp/HTML_FILE1_include_test.html''"
  by (simp add: html_include_def os_path_join_def os_path_basename_def)

lemma html_include_flat_base:
  "os_path_basename ''/tmp/HTML_FILE1_include_test.html'' = ''HTML_FILE1_include_test.html''"
  by (simp add: os_path_basename_def)

text \<open>
  The include node of the flattening test, flattened twice to \<open>/tmp\<close>: one file is
  written, the first call returns \<open>HTML_FILE1_include_test.html\<close>, the second \<open>None\<close>.
\<close>

theorem process_second_call_witness:
  "last_flat_filename html_include \<noteq> Some ''/tmp/HTML_FILE1_include_test.html''
   \<and> (\<exists>self1 w1.
        Process html_include (example_world ''<html></html>'') ''/tmp'' =
          (Some ''HTML_FILE1_include_test.html'', self1, w1)
      \<and> files_written w1 = [(''/tmp/HTML_FILE1_include_test.html'', ''<html></html>'')]
      \<and> Process self1 w1 ''/tmp'' = (None, self1, w1))"
proof -
  have n: "last_flat_filename html_include \<noteq> Some ''/tmp/HTML_FILE1_include_test.html''"
    by (simp add: html_include_def)
  have d: "fst (GetFlattenedData html_include (example_world ''<html></html>'') False) = ''<html></html>''"
    by (simp add: GetFlattenedData_def html_include_def example_world_def Let_def)
  have w: "files_written (example_world ''<html></html>'') = []"
    by (simp add: example_world_def)
  note t = process_second_call_returns_none
    [where self = html_include and output_dir = "''/tmp''" and w = "example_world ''<html></html>''",
     unfolded html_include_flat html_include_flat_base d w, THEN mp, OF n]
  with n show ?thesis by simp
qed

text \<open>
  Claim C9. When the first computation yields the empty byte string, the cache counts
  as not filled: the next call invokes the inliner again, with the flag of that call,
  and returns what the inliner returns then.
\<close>

theorem flattened_data_empty_not_cached:
  "flattened_data self = None \<and> InlineToString w (real_path self) allow1 = [] \<longrightarrow>
   (\<exists>self1 w1.
      GetFlattenedData self w allow1 = ([], self1, w1)
    \<and> fst (GetFlattenedData self1 w1 allow2) = InlineToString w (real_path self) allow2
    \<and> inline_calls (snd (snd (GetFlattenedData self1 w1 allow2))) =
        inline_calls w @ [(real_path self, allow1), (real_path self, allow2)])"
proof
  assume a: "flattened_data self = None \<and> InlineToString w (real_path self) allow1 = []"
  let ?self1 = "self\<lparr>flattened_data := Some []\<rparr>"
  let ?w1 = "w\<lparr>inline_calls := inline_calls w @ [(real_path self, allow1)]\<rparr>"
  have 1: "GetFlattenedData self w allow1 = ([], ?self1, ?w1)"
    using a by (simp add: GetFlattenedData_empty)
  have 2: "GetFlattenedData ?self1 ?w1 allow2 =
      (InlineToString w (real_path self) allow2,
       ?self1\<lparr>flattened_data := Some (InlineToString w (real_path self) allow2)\<rparr>,
       ?w1\<lparr>inline_calls := inline_calls ?w1 @ [(real_path self, allow2)]\<rparr>)"
    by (simp add: GetFlattenedData_empty)
  show "\<exists>self1 w1.
      GetFlattenedData self w allow1 = ([], self1, w1)
    \<and> fst (GetFlattenedData self1 w1 allow2) = InlineToString w (real_path self) allow2
    \<and> inline_calls (snd (snd (GetFlattenedData self1 w1 allow2))) =
        inline_calls w @ [(real_path self, allow1), (real_path self, allow2)]"
    by (intro exI [of _ ?self1] exI [of _ ?w1]) (simp add: 1 2)
qed

text \<open>
  The include node of the flattening test over an empty source file: two calls of the
  accessor are two calls of the inliner.
\<close>

theorem flattened_data_empty_witness:
  "flattened_data html_include = None
   \<and> InlineToString (example_world []) (real_path html_include) False = []
   \<and> (\<exists>self1 w1.
        GetFlattenedData html_include (example_world []) False = ([], self1, w1)
      \<and> inline_calls (snd (snd (GetFlattenedData self1 w1 False))) =
          [(''/grit/testdata/include_test.html'', False),
           (''/grit/testdata/include_test.html'', False)])"
proof -
  have a: "flattened_data html_include = None
      \<and> InlineToString (example_world []) (real_path html_include) False = []"
    by (simp add: html_include_def example_world_def)
  have p: "real_path html_include = ''/grit/testdata/include_test.html''"
    by (simp add: html_include_def)
  have c: "inline_calls (example_world []) = []"
    by (simp add: example_world_def)
  from flattened_data_empty_not_cached
    [where self = html_include and w = "example_world []" and ?allow1.0 = False and ?allow2.0 = False,
     THEN mp, OF a]
  obtain self1 w1 where
    "GetFlattenedData html_include (example_world []) False = ([], self1, w1)"
    "inline_calls (snd (snd (GetFlattenedData self1 w1 False))) =
       inline_calls (example_world []) @
         [(real_path html_include, False), (real_path html_include, False)]"
    by blast
  then have "GetFlattenedData html_include (example_world []) False = ([], self1, w1)
      \<and> inline_calls (snd (snd (GetFlattenedData self1 w1 False))) =
          [(''/grit/testdata/include_test.html'', False),
           (''/grit/testdata/include_test.html'', False)]"
    by (simp add: p c)
  with a show ?thesis by blast
qed

text \<open>
  Claim C8. For an include node with a textual id, \<open>GetDataPackPair\<close> raises
  \<open>KeyError\<close> exactly when the first textual id has no entry in the id table, and
  raises nothing else. With an entry, the result is the id of the entry paired with
  the bytes: those of the flattened-data accessor, called with the node's
  \<open>allowexternalscript\<close> flag, when \<open>flattenhtml\<close> is \<open>true\<close> (the cached bytes when the
  cache is filled, and then neither node nor world changes), and those that
  \<open>ReadFile\<close> gives for the resolved source file otherwise, node and world unchanged.
  Neither the language nor the encoding has any effect.
\<close>

theorem data_pack_pair:
  "inc_textual_ids self = textual_id # ids \<longrightarrow>
     ((\<exists>e. GetDataPackPair self w lang encoding = Inl e) \<longleftrightarrow> tids w textual_id = None)
   \<and> (tids w textual_id = None \<longrightarrow> GetDataPackPair self w lang encoding = Inl KeyError)
   \<and> (tids w textual_id = Some resource_id \<and> attr_flattenhtml self = ''true'' \<longrightarrow>
        GetDataPackPair self w lang encoding =
          Inr ((resource_id,
                fst (GetFlattenedData self w (attr_allowexternalscript self = ''true''))),
               snd (GetFlattenedData self w (attr_allowexternalscript self = ''true''))))
   \<and> (tids w textual_id = Some resource_id \<and> attr_flattenhtml self = ''true''
        \<and> flattened_data self = Some data \<and> data \<noteq> [] \<longrightarrow>
        GetDataPackPair self w lang encoding = Inr ((resource_id, data), self, w))
   \<and> (tids w textual_id = Some resource_id \<and> attr_flattenhtml self \<noteq> ''true'' \<longrightarrow>
        GetDataPackPair self w lang encoding =
          Inr ((resource_id, ReadFile w (real_path self)), self, w))
   \<and> GetDataPackPair self w lang encoding = GetDataPackPair self w lang' encoding'"
proof
  assume i: "inc_textual_ids self = textual_id # ids"
  show "((\<exists>e. GetDataPackPair self w lang encoding = Inl e) \<longleftrightarrow> tids w textual_id = None)
   \<and> (tids w textual_id = None \<longrightarrow> GetDataPackPair self w lang encoding = Inl KeyError)
   \<and> (tids w textual_id = Some resource_id \<and> attr_flattenhtml self = ''true'' \<longrightarrow>
        GetDataPackPair self w lang encoding =
          Inr ((resource_id,
                fst (GetFlattenedData self w (attr_allowexternalscript self = ''true''))),
               snd (GetFlattenedData self w (attr_allowexternalscript self = ''true''))))
   \<and> (tids w textual_id = Some resource_id \<and> attr_flattenhtml self = ''true''
        \<and> flattened_data self = Some data \<and> data \<noteq> [] \<longrightarrow>
        GetDataPackPair self w lang encoding = Inr ((resource_id, data), self, w))
   \<and> (tids w textual_id = Some resource_id \<and> attr_flattenhtml self \<noteq> ''true'' \<longrightarrow>
        GetDataPackPair self w lang encoding =
          Inr ((resource_id, ReadFile w (real_path self)), self, w))
   \<and> GetDataPackPair self w lang encoding = GetDataPackPair self w lang' encoding'"
  proof (intro conjI impI)
    show "(\<exists>e. GetDataPackPair self w lang encoding = Inl e) \<longleftrightarrow> tids w textual_id = None"
      using i by (auto simp: GetDataPackPair_def Let_def split_beta split: option.splits)
  next
    assume "tids w textual_id = None"
    then show "GetDataPackPair self w lang encoding = Inl KeyError"
      using i by (simp add: GetDataPackPair_def)
  next
    assume "tids w textual_id = Some resource_id \<and> attr_flattenhtml self = ''true''"
    then show "GetDataPackPair self w lang encoding =
          Inr ((resource_id,
                fst (GetFlattenedData self w (attr_allowexternalscript self = ''true''))),
               snd (GetFlattenedData self w (attr_allowexternalscript self = ''true'')))"
      using i by (simp add: GetDataPackPair_def Let_def split_beta)
  next
    assume "tids w textual_id = Some resource_id \<and> attr_flattenhtml self = ''true''
        \<and> flattened_data self = Some data \<and> data \<noteq> []"
    then show "GetDataPackPair self w lang encoding = Inr ((resource_id, data), self, w)"
      using i by (simp add: GetDataPackPair_def GetFlattenedData_cached)
  next
    assume "tids w textual_id = Some resource_id \<and> attr_flattenhtml self \<noteq> ''true''"
    then show "GetDataPackPair self w lang encoding =
          Inr ((resource_id, ReadFile w (real_path self)), self, w)"
      using i by (simp add: GetDataPackPair_def Let_def)
  next
    show "GetDataPackPair self w lang encoding = GetDataPackPair self w lang' encoding'"
      by (simp add: GetDataPackPair_def)
  qed
qed


text \<open>
  The include node of the flattening test, whose id has the entry 101: with
  \<open>flattenhtml\<close> the bytes are the inliner's, without it the bytes are those of
  \<open>ReadFile\<close>; and the same node under an id that has no entry.
\<close>

theorem data_pack_pair_witness:
  "inc_textual_ids html_include = [''HTML_FILE1'']
   \<and> tids (example_world ''<html></html>'') ''HTML_FILE1'' = Some 101
   \<and> fst (GetFlattenedData html_include (example_world ''<html></html>'') False) = ''<html></html>''
   \<and> (\<exists>state. GetDataPackPair html_include (example_world ''<html></html>'') ''en'' ''utf-8'' =
          Inr ((101, ''<html></html>''), state))
   \<and> attr_flattenhtml (html_include\<lparr>attr_flattenhtml := ''false''\<rparr>) \<noteq> ''true''
   \<and> GetDataPackPair (html_include\<lparr>attr_flattenhtml := ''false''\<rparr>)
        (example_world ''<html></html>'') ''en'' ''utf-8'' =
        Inr ((101, ''raw''), html_include\<lparr>attr_flattenhtml := ''false''\<rparr>,
             example_world ''<html></html>'')
   \<and> tids (example_world ''<html></html>'') ''IDR_UNKNOWN'' = None
   \<and> GetDataPackPair (html_include\<lparr>inc_textual_ids := [''IDR_UNKNOWN'']\<rparr>)
        (example_world ''<html></html>'') ''en'' ''utf-8'' = Inl KeyError"
proof -
  let ?w = "example_world ''<html></html>''"
  let ?raw = "html_include\<lparr>attr_flattenhtml := ''false''\<rparr>"
  let ?unk = "html_include\<lparr>inc_textual_ids := [''IDR_UNKNOWN'']\<rparr>"
  have i: "inc_textual_ids html_include = ''HTML_FILE1'' # []"
    and i2: "inc_textual_ids ?raw = ''HTML_FILE1'' # []"
    and i3: "inc_textual_ids ?unk = ''IDR_UNKNOWN'' # []"
    by (simp_all add: html_include_def)
  have e: "tids ?w ''HTML_FILE1'' = Some 101" and n: "tids ?w ''IDR_UNKNOWN'' = None"
    by (simp_all add: example_world_def)
  have f: "attr_flattenhtml html_include = ''true''" and a: "attr_allowexternalscript html_include \<noteq> ''true''"
    and r: "attr_flattenhtml ?raw \<noteq> ''true''" and p: "real_path ?raw = ''/grit/testdata/include_test.html''"
    by (simp_all add: html_include_def)
  have d: "fst (GetFlattenedData html_include ?w False) = ''<html></html>''"
    by (simp add: GetFlattenedData_def html_include_def example_world_def Let_def)
  have rf: "ReadFile ?w ''/grit/testdata/include_test.html'' = ''raw''"
    by (simp add: example_world_def)
  have 1: "GetDataPackPair html_include ?w ''en'' ''utf-8'' =
      Inr ((101, ''<html></html>''), snd (GetFlattenedData html_include ?w False))"
    using data_pack_pair
      [where self = html_include and w = ?w and textual_id = "''HTML_FILE1''" and ids = "[]"
         and resource_id = 101 and lang = "''en''" and encoding = "''utf-8''",
       THEN mp, OF i, THEN conjunct2, THEN conjunct2, THEN conjunct1, THEN mp, OF conjI [OF e f]]
      a d by simp
  have 2: "GetDataPackPair ?raw ?w ''en'' ''utf-8'' = Inr ((101, ''raw''), ?raw, ?w)"
    using data_pack_pair
      [where self = ?raw and w = ?w and textual_id = "''HTML_FILE1''" and ids = "[]"
         and resource_id = 101 and lang = "''en''" and encoding = "''utf-8''",
       THEN mp, OF i2, THEN conjunct2, THEN conjunct2, THEN conjunct2, THEN conjunct2,
       THEN conjunct1, THEN mp, OF conjI [OF e r]]
    unfolding p rf .
  have 3: "GetDataPackPair ?unk ?w ''en'' ''utf-8'' = Inl KeyError"
    using data_pack_pair
      [where self = ?unk and w = ?w and textual_id = "''IDR_UNKNOWN''" and ids = "[]"
         and lang = "''en''" and encoding = "''utf-8''",
       THEN mp, OF i3, THEN conjunct2, THEN conjunct1, THEN mp, OF n] .
  from 1 have ex: "\<exists>state. GetDataPackPair html_include ?w ''en'' ''utf-8'' =
      Inr ((101, ''<html></html>''), state)"
    by blast
  show ?thesis
    using i e d ex r 2 n 3 by simp
qed

section \<open>Properties of the RC include formatter\<close>

lemma ItemFormatter_RcInclude:
  "ItemFormatter item t = RcInclude fmt \<Longrightarrow>
     fmt = \<lparr>rc_type = str_upper (attr_type item),
            filenameWithoutPath = (attr_filenameonly item = ''true''),
            relative_path = (attr_relativepath item = ''true''),
            flatten_html = (attr_flattenhtml item = ''true'')\<rparr>"
  by (simp add: ItemFormatter_def split: if_splits)

lemma ItemFormatter_RcInclude_iff:
  "(\<exists>fmt. ItemFormatter item t = RcInclude fmt) \<longleftrightarrow>
     t \<in> {''rc_all'', ''rc_translateable'', ''rc_nontranslateable''} \<and> SatisfiesOutputCondition item"
  by (auto simp: ItemFormatter_def)

lemma Process_attrs:
  "Process item w output_dir = (r, item', w') \<Longrightarrow> attr_name item' = attr_name item"
  by (auto simp: Process_def GetFlattenedData_def Let_def split: if_splits)

lemma Process_first:
  "last_flat_filename item \<noteq>
     Some (os_path_join output_dir (attr_name item @ ''_'' @ os_path_basename (real_path item)))
   \<Longrightarrow> fst (Process item w output_dir) =
     Some (os_path_basename
            (os_path_join output_dir (attr_name item @ ''_'' @ os_path_basename (real_path item))))"
  by (simp add: Process_def Let_def split_beta)

lemma Process_repeated:
  "last_flat_filename item =
     Some (os_path_join output_dir (attr_name item @ ''_'' @ os_path_basename (real_path item)))
   \<Longrightarrow> Process item w output_dir = (None, item, w)"
  by (simp add: Process_def Let_def)

lemma RcInclude_Format_eq:
  assumes "ItemFormatter item t = RcInclude fmt"
  shows "RcInclude_Format env fmt item w lang output_dir =
     ((case chosen_path env item w output_dir of
         None \<Rightarrow> Inl AttributeError
       | Some path \<Rightarrow>
           Inr (ljust 18 (attr_name item) @ '' '' @ ljust 18 (str_upper (attr_type item)) @ '' ''
                @ [DQ] @ str_replace BS [BS, BS] path @ [DQ, LF])),
      (if attr_flattenhtml item = ''true'' then snd (Process item w output_dir) else (item, w)))"
proof -
  have f: "fmt = \<lparr>rc_type = str_upper (attr_type item),
            filenameWithoutPath = (attr_filenameonly item = ''true''),
            relative_path = (attr_relativepath item = ''true''),
            flatten_html = (attr_flattenhtml item = ''true'')\<rparr>"
    using assms by (rule ItemFormatter_RcInclude)
  show ?thesis
  proof (cases "attr_flattenhtml item = ''true''")
    case True
    obtain r item' w' where p: "Process item w output_dir = (r, item', w')"
      by (cases "Process item w output_dir") auto
    have n: "attr_name item' = attr_name item"
      using p by (rule Process_attrs)
    show ?thesis
      using True by (simp add: f RcInclude_Format_def chosen_path_def p n Let_def split: option.splits)
  next
    case False
    then show ?thesis
      by (simp add: f RcInclude_Format_def chosen_path_def FileForLanguage_def Let_def)
  qed
qed

text \<open>
  Claim C10. When \<open>ItemFormatter\<close> answers with an RC include formatter (for the three
  RC output types, on a node that satisfies its output condition), that formatter
  applies exactly one path transformation, chosen in the order flattenhtml,
  filenameonly, relativepath, absolute path. Where the chosen transformation gives a
  path, the result is the line with the name, the upper-cased type, and that path
  between quotes with backslashes doubled; node and world change only through the
  flatten call. The flatten call gives the base name of the destination when the node
  was not yet flattened there; when it was, it gives no name and the formatter
  raises \<open>AttributeError\<close>. An RC include formatter whose \<open>flatten_html\<close> is set
  behaves the same whatever its other two flags are.
\<close>

theorem rc_include_path_precedence:
  "(ItemFormatter item t = RcInclude fmt \<longrightarrow>
      RcInclude_Format env fmt item w lang output_dir =
        ((case chosen_path env item w output_dir of
            None \<Rightarrow> Inl AttributeError
          | Some path \<Rightarrow>
              Inr (ljust 18 (attr_name item) @ '' '' @ ljust 18 (str_upper (attr_type item)) @ '' ''
                   @ [DQ] @ str_replace BS [BS, BS] path @ [DQ, LF])),
         (if attr_flattenhtml item = ''true'' then snd (Process item w output_dir)
          else (item, w))))
   \<and> (attr_flattenhtml item = ''true''
        \<and> last_flat_filename item \<noteq>
            Some (os_path_join output_dir (attr_name item @ ''_'' @ os_path_basename (real_path item)))
        \<longrightarrow>
      chosen_path env item w output_dir =
        Some (os_path_basename
               (os_path_join output_dir (attr_name item @ ''_'' @ os_path_basename (real_path item)))))
   \<and> (attr_flattenhtml item = ''true''
        \<and> last_flat_filename item =
            Some (os_path_join output_dir (attr_name item @ ''_'' @ os_path_basename (real_path item)))
        \<longrightarrow>
      chosen_path env item w output_dir = None)
   \<and> (attr_flattenhtml item \<noteq> ''true'' \<longrightarrow>
      chosen_path env item w output_dir =
        Some (if attr_filenameonly item = ''true''
                then os_path_basename (abspath env (real_path item))
              else if attr_relativepath item = ''true''
                then MakeRelativePath env output_dir (abspath env (real_path item))
              else abspath env (real_path item)))
   \<and> (flatten_html fmt \<longrightarrow>
      RcInclude_Format env (fmt\<lparr>filenameWithoutPath := a, relative_path := b\<rparr>)
        item w lang output_dir =
      RcInclude_Format env fmt item w lang output_dir)
   \<and> ((\<exists>fmt. ItemFormatter item t = RcInclude fmt) \<longleftrightarrow>
        t \<in> {''rc_all'', ''rc_translateable'', ''rc_nontranslateable''}
        \<and> SatisfiesOutputCondition item)"
proof (intro conjI impI)
  assume "ItemFormatter item t = RcInclude fmt"
  then show "RcInclude_Format env fmt item w lang output_dir =
        ((case chosen_path env item w output_dir of
            None \<Rightarrow> Inl AttributeError
          | Some path \<Rightarrow>
              Inr (ljust 18 (attr_name item) @ '' '' @ ljust 18 (str_upper (attr_type item)) @ '' ''
                   @ [DQ] @ str_replace BS [BS, BS] path @ [DQ, LF])),
         (if attr_flattenhtml item = ''true'' then snd (Process item w output_dir)
          else (item, w)))"
    by (rule RcInclude_Format_eq)
next
  assume "attr_flattenhtml item = ''true''
        \<and> last_flat_filename item \<noteq>
            Some (os_path_join output_dir (attr_name item @ ''_'' @ os_path_basename (real_path item)))"
  then show "chosen_path env item w output_dir =
        Some (os_path_basename
               (os_path_join output_dir (attr_name item @ ''_'' @ os_path_basename (real_path item))))"
    by (simp add: chosen_path_def Process_first)
next
  assume "attr_flattenhtml item = ''true''
        \<and> last_flat_filename item =
            Some (os_path_join output_dir (attr_name item @ ''_'' @ os_path_basename (real_path item)))"
  then show "chosen_path env item w output_dir = None"
    by (simp add: chosen_path_def Process_repeated)
next
  assume "attr_flattenhtml item \<noteq> ''true''"
  then show "chosen_path env item w output_dir =
        Some (if attr_filenameonly item = ''true''
                then os_path_basename (abspath env (real_path item))
              else if attr_relativepath item = ''true''
                then MakeRelativePath env output_dir (abspath env (real_path item))
              else abspath env (real_path item))"
    by (simp add: chosen_path_def)
next
  assume "flatten_html fmt"
  then show "RcInclude_Format env (fmt\<lparr>filenameWithoutPath := a, relative_path := b\<rparr>)
        item w lang output_dir =
      RcInclude_Format env fmt item w lang output_dir"
    by (simp add: RcInclude_Format_def Let_def split: prod.splits option.splits)
next
  show "(\<exists>fmt. ItemFormatter item t = RcInclude fmt) \<longleftrightarrow>
        t \<in> {''rc_all'', ''rc_translateable'', ''rc_nontranslateable''}
        \<and> SatisfiesOutputCondition item"
    by (rule ItemFormatter_RcInclude_iff)
qed


text \<open>
  Scenario B: the include \<open>TEXT_ONE\<close> of type \<open>TXT\<close>, file \<open>/temp/bingo.txt\<close>, no flag
  set, formatted for \<open>rc_all\<close>. And the node of the flattening test with
  \<open>filenameonly\<close> set as well: formatted for the first time, the line holds the
  flattened name; formatted when it was already flattened to \<open>/tmp\<close>, the formatter
  raises.
\<close>

theorem rc_include_path_precedence_witness:
  "ItemFormatter text_one ''rc_all'' =
     RcInclude \<lparr>rc_type = ''TXT'', filenameWithoutPath = False, relative_path = False,
               flatten_html = False\<rparr>
   \<and> RcInclude_Format example_platform
        \<lparr>rc_type = ''TXT'', filenameWithoutPath = False, relative_path = False,
         flatten_html = False\<rparr> text_one (example_world ''<html></html>'') ''en'' ''/temp'' =
       (Inr (''TEXT_ONE           TXT                '' @ [DQ] @ ''/temp/bingo.txt'' @ [DQ, LF]),
        text_one, example_world ''<html></html>'')
   \<and> ItemFormatter (html_include\<lparr>attr_filenameonly := ''true''\<rparr>) ''rc_all'' =
     RcInclude \<lparr>rc_type = ''BINDATA'', filenameWithoutPath = True, relative_path = False,
               flatten_html = True\<rparr>
   \<and> fst (RcInclude_Format example_platform
        \<lparr>rc_type = ''BINDATA'', filenameWithoutPath = True, relative_path = False,
         flatten_html = True\<rparr> (html_include\<lparr>attr_filenameonly := ''true''\<rparr>)
        (example_world ''<html></html>'') ''en'' ''/tmp'') =
       Inr (''HTML_FILE1         BINDATA            '' @ [DQ] @ ''HTML_FILE1_include_test.html''
            @ [DQ, LF])
   \<and> fst (RcInclude_Format example_platform
        \<lparr>rc_type = ''BINDATA'', filenameWithoutPath = True, relative_path = False,
         flatten_html = True\<rparr>
        (html_include\<lparr>attr_filenameonly := ''true'',
                      last_flat_filename := Some ''/tmp/HTML_FILE1_include_test.html''\<rparr>)
        (example_world ''<html></html>'') ''en'' ''/tmp'') =
       Inl AttributeError"
proof -
  let ?f1 = "\<lparr>rc_type = ''TXT'', filenameWithoutPath = False, relative_path = False,
              flatten_html = False\<rparr>"
  let ?f2 = "\<lparr>rc_type = ''BINDATA'', filenameWithoutPath = True, relative_path = False,
              flatten_html = True\<rparr>"
  let ?n2 = "html_include\<lparr>attr_filenameonly := ''true''\<rparr>"
  let ?n3 = "html_include\<lparr>attr_filenameonly := ''true'',
               last_flat_filename := Some ''/tmp/HTML_FILE1_include_test.html''\<rparr>"
  let ?w = "example_world ''<html></html>''"
  have u: "str_upper ''TXT'' = ''TXT''" "str_upper ''BINDATA'' = ''BINDATA''"
    by (simp_all add: str_upper_def upper_char_def is_lower_def)
  have i1: "ItemFormatter text_one ''rc_all'' = RcInclude ?f1"
    by (simp add: ItemFormatter_def text_one_def u)
  have i2: "ItemFormatter ?n2 ''rc_all'' = RcInclude ?f2"
    by (simp add: ItemFormatter_def html_include_def u)
  have i3: "ItemFormatter ?n3 ''rc_all'' = RcInclude ?f2"
    by (simp add: ItemFormatter_def html_include_def u)
  have a1: "attr_name text_one = ''TEXT_ONE''" "attr_type text_one = ''TXT''"
    by (simp_all add: text_one_def)
  have a2: "attr_name ?n2 = ''HTML_FILE1''" "attr_type ?n2 = ''BINDATA''"
    "attr_name ?n3 = ''HTML_FILE1''" "attr_type ?n3 = ''BINDATA''"
    by (simp_all add: html_include_def)
  have l: "ljust 18 ''TEXT_ONE'' = ''TEXT_ONE          ''" "ljust 18 ''TXT'' = ''TXT               ''"
    "ljust 18 ''HTML_FILE1'' = ''HTML_FILE1        ''" "ljust 18 ''BINDATA'' = ''BINDATA           ''"
    by (simp_all add: ljust_def numeral_eq_Suc)
  have r: "str_replace BS [BS, BS] ''/temp/bingo.txt'' = ''/temp/bingo.txt''"
    "str_replace BS [BS, BS] ''HTML_FILE1_include_test.html'' = ''HTML_FILE1_include_test.html''"
    by (simp_all add: str_replace_def)
  have j2: "os_path_join ''/tmp'' (attr_name ?n2 @ ''_'' @ os_path_basename (real_path ?n2))
      = ''/tmp/HTML_FILE1_include_test.html''"
    and j3: "os_path_join ''/tmp'' (attr_name ?n3 @ ''_'' @ os_path_basename (real_path ?n3))
      = ''/tmp/HTML_FILE1_include_test.html''"
    by (simp_all add: html_include_def os_path_join_def os_path_basename_def)
  have h1: "attr_flattenhtml text_one \<noteq> ''true''"
    by (simp add: text_one_def)
  have h2: "attr_flattenhtml ?n2 = ''true''
      \<and> last_flat_filename ?n2 \<noteq>
          Some (os_path_join ''/tmp'' (attr_name ?n2 @ ''_'' @ os_path_basename (real_path ?n2)))"
    unfolding j2 by (simp add: html_include_def)
  have h3: "attr_flattenhtml ?n3 = ''true''
      \<and> last_flat_filename ?n3 =
          Some (os_path_join ''/tmp'' (attr_name ?n3 @ ''_'' @ os_path_basename (real_path ?n3)))"
    unfolding j3 by (simp add: html_include_def)
  have c1: "chosen_path example_platform text_one ?w ''/temp'' = Some ''/temp/bingo.txt''"
    using rc_include_path_precedence
      [where item = text_one and env = example_platform and w = ?w and output_dir = "''/temp''",
       THEN conjunct2, THEN conjunct2, THEN conjunct2, THEN conjunct1, THEN mp, OF h1]
    by (simp add: text_one_def example_platform_def)
  have c2: "chosen_path example_platform ?n2 ?w ''/tmp'' = Some ''HTML_FILE1_include_test.html''"
    using rc_include_path_precedence
      [where item = ?n2 and env = example_platform and w = ?w and output_dir = "''/tmp''",
       THEN conjunct2, THEN conjunct1, THEN mp, OF h2]
    unfolding j2 by (simp add: os_path_basename_def)
  have c3: "chosen_path example_platform ?n3 ?w ''/tmp'' = None"
    using rc_include_path_precedence
      [where item = ?n3 and env = example_platform and w = ?w and output_dir = "''/tmp''",
       THEN conjunct2, THEN conjunct2, THEN conjunct1, THEN mp, OF h3] .
  have 1: "RcInclude_Format example_platform ?f1 text_one ?w ''en'' ''/temp'' =
      (Inr (''TEXT_ONE           TXT                '' @ [DQ] @ ''/temp/bingo.txt'' @ [DQ, LF]),
       text_one, ?w)"
    using rc_include_path_precedence
      [where item = text_one and t = "''rc_all''" and fmt = ?f1 and env = example_platform
         and w = ?w and lang = "''en''" and output_dir = "''/temp''",
       THEN conjunct1, THEN mp, OF i1]
    unfolding c1 a1 u l using h1 by (simp add: r)
  have 2: "fst (RcInclude_Format example_platform ?f2 ?n2 ?w ''en'' ''/tmp'') =
      Inr (''HTML_FILE1         BINDATA            '' @ [DQ] @ ''HTML_FILE1_include_test.html''
           @ [DQ, LF])"
    using rc_include_path_precedence
      [where item = ?n2 and t = "''rc_all''" and fmt = ?f2 and env = example_platform
         and w = ?w and lang = "''en''" and output_dir = "''/tmp''",
       THEN conjunct1, THEN mp, OF i2]
    unfolding c2 a2 u l by (simp add: r)
  have 3: "fst (RcInclude_Format example_platform ?f2 ?n3 ?w ''en'' ''/tmp'') = Inl AttributeError"
    using rc_include_path_precedence
      [where item = ?n3 and t = "''rc_all''" and fmt = ?f2 and env = example_platform
         and w = ?w and lang = "''en''" and output_dir = "''/tmp''",
       THEN conjunct1, THEN mp, OF i3]
    unfolding c3 by simp
  show ?thesis
    using i1 i2 1 2 3 by simp
qed

end
